theory Spec2Isabelle
  imports Complex_Main
begin

section \<open>Python values and exceptions\<close>

text \<open>
  The notebook \<^verbatim>\<open>imdb-scraper.ipynb\<close> runs on Python 3.7. Its strings are modelled as
  \<^typ>\<open>string\<close>, a character being one code point in the range 0..255. Exceptions are values:
  a computation that may raise returns \<open>error + 'a\<close>, with \<open>Inl\<close> for the exception.
  Console output (\<^verbatim>\<open>print\<close>, \<^verbatim>\<open>pprint\<close>), the parameter \<^verbatim>\<open>debug\<close> that only switches it,
  and the pacing delay (\<^verbatim>\<open>time.sleep\<close>) change no value and are left out; where building
  what is printed can raise, the exception is kept.
\<close>

datatype error =
    AttributeError
  | TypeError
  | KeyError
  | IndexError
  | ValueError
  | OverflowError
  | JSONDecodeError
  | RequestException
  | ImageError
  | OSError

text \<open>
  A Python float is an IEEE binary64 value: a finite real, an infinity or a NaN.
\<close>

datatype pyfloat = FReal real | FInf | FNegInf | FNaN

text \<open>
  The objects the scraper handles: what \<^verbatim>\<open>json.loads\<close> can return, and the numbers and
  strings the scraper stores in its dictionary. A \<^verbatim>\<open>dict\<close> is an association list, looked up
  with \<^const>\<open>map_of\<close>.
\<close>

datatype pyval =
    PNone
  | PBool bool
  | PInt int
  | PFloat pyfloat
  | PStr string
  | PList "pyval list"
  | PDict "(string \<times> pyval) list"

section \<open>Numeric coercion: \<^verbatim>\<open>to_numeric\<close>\<close>

definition is_digit :: "char \<Rightarrow> bool" where
  "is_digit c = (48 \<le> (of_char c :: nat) \<and> (of_char c :: nat) \<le> 57)"

text \<open>\<^verbatim>\<open>re.sub("[^0-9]", "", string)\<close>: every character outside \<^verbatim>\<open>0-9\<close> is deleted.\<close>

definition strip_non_digits :: "string \<Rightarrow> string" where
  "strip_non_digits s = filter is_digit s"

definition digit_val :: "char \<Rightarrow> nat" where
  "digit_val c = of_char c - 48"

definition nat_of_digits :: "string \<Rightarrow> nat" where
  "nat_of_digits s = foldl (\<lambda>a c. 10 * a + digit_val c) 0 s"

text \<open>
  \<^verbatim>\<open>int(s)\<close> for a string \<open>s\<close> of ASCII digits only, which is all \<^verbatim>\<open>to_numeric\<close> ever passes:
  the empty string raises \<^verbatim>\<open>ValueError\<close>, anything else is read in base ten.
\<close>

definition int_digits :: "string \<Rightarrow> error + int" where
  "int_digits s = (if s = [] then Inl ValueError else Inr (int (nat_of_digits s)))"

fun bitlen :: "nat \<Rightarrow> nat" where
  "bitlen n = (if n = 0 then 0 else Suc (bitlen (n div 2)))"

declare bitlen.simps [simp del]

text \<open>
  The binary64 value nearest to a natural number, ties to the even significand; a number
  that rounds to \<open>2 ^ 1024\<close> or more becomes infinity, as \<^verbatim>\<open>float("1" * 400)\<close> does.
\<close>

definition float_of_nat :: "nat \<Rightarrow> pyfloat" where
  "float_of_nat n =
     (if n < 2 ^ 53 then FReal (real n)
      else
        let e = bitlen n - 53;
            q = n div 2 ^ e;
            r = n mod 2 ^ e;
            q' = (if 2 ^ e < 2 * r \<or> (2 * r = 2 ^ e \<and> odd q) then q + 1 else q)
        in if 2 ^ 1024 \<le> q' * 2 ^ e then FInf else FReal (real (q' * 2 ^ e)))"

text \<open>\<^verbatim>\<open>float(s)\<close> for a string of ASCII digits only.\<close>

definition float_digits :: "string \<Rightarrow> error + pyfloat" where
  "float_digits s = (if s = [] then Inl ValueError else Inr (float_of_nat (nat_of_digits s)))"

text \<open>
  \<^verbatim>\<open>
  def to_numeric(string, num_type='int'):
      if num_type == 'float':
          x = float( re.sub("[^0-9]", "", string ) )
      elif num_type == 'int':
          x = int( re.sub("[^0-9]", "", string ) )
      else:
          x = string
      return x
  \<close>
\<close>

definition to_numeric :: "string \<Rightarrow> string \<Rightarrow> error + pyval" where
  "to_numeric string num_type =
     (if num_type = ''float'' then
        (case float_digits (strip_non_digits string) of
           Inl e \<Rightarrow> Inl e
         | Inr x \<Rightarrow> Inr (PFloat x))
      else if num_type = ''int'' then
        (case int_digits (strip_non_digits string) of
           Inl e \<Rightarrow> Inl e
         | Inr x \<Rightarrow> Inr (PInt x))
      else Inr (PStr string))"

section \<open>String operations\<close>

text \<open>
  \<^verbatim>\<open>str.isspace\<close> on the code points below 256: tab to carriage return, the four
  separators 28..31, the space, \<^verbatim>\<open>\x85\<close> and the no-break space.
\<close>

definition is_space :: "char \<Rightarrow> bool" where
  "is_space c = ((of_char c :: nat) \<in> {9, 10, 11, 12, 13, 28, 29, 30, 31, 32, 133, 160})"

text \<open>\<^verbatim>\<open>s.strip()\<close>\<close>

definition strip :: "string \<Rightarrow> string" where
  "strip s = rev (dropWhile is_space (rev (dropWhile is_space s)))"

definition starts_with :: "string \<Rightarrow> string \<Rightarrow> bool" where
  "starts_with sub s = (take (length sub) s = sub)"

text \<open>\<^verbatim>\<open>sub in s\<close> for two strings: \<open>sub\<close> occurs somewhere in \<open>s\<close>.\<close>

fun contains :: "string \<Rightarrow> string \<Rightarrow> bool" where
  "contains sub [] = (sub = [])"
| "contains sub (c # cs) = (starts_with sub (c # cs) \<or> contains sub cs)"

text \<open>
  \<^verbatim>\<open>s.split(sep)[0]\<close> for a non-empty separator: the part of \<open>s\<close> before the first
  occurrence of \<open>sep\<close>, all of \<open>s\<close> when there is none.
\<close>

fun split_first :: "string \<Rightarrow> string \<Rightarrow> string" where
  "split_first sep [] = []"
| "split_first sep (c # cs) = (if starts_with sep (c # cs) then [] else c # split_first sep cs)"

text \<open>
  \<^verbatim>\<open>s.split('.')[-1]\<close>: the part of \<open>s\<close> after the last dot, all of \<open>s\<close> when it has
  none. The accumulator holds the piece being read.
\<close>

fun split_last_from :: "char \<Rightarrow> string \<Rightarrow> string \<Rightarrow> string" where
  "split_last_from sep acc [] = acc"
| "split_last_from sep acc (c # cs) =
     (if c = sep then split_last_from sep [] cs else split_last_from sep (acc @ [c]) cs)"

definition split_last :: "char \<Rightarrow> string \<Rightarrow> string" where
  "split_last sep s = split_last_from sep [] s"

text \<open>
  \<^verbatim>\<open>int(s)\<close> for any string: surrounding whitespace is ignored, one sign may lead, and
  the digits may be grouped by single underscores.
\<close>

fun int_body_ok :: "string \<Rightarrow> bool" where
  "int_body_ok [] = False"
| "int_body_ok [c] = is_digit c"
| "int_body_ok (c # d # cs) =
     (is_digit c \<and> (if d = CHR ''_'' then int_body_ok cs else int_body_ok (d # cs)))"

definition int_str :: "string \<Rightarrow> error + int" where
  "int_str s =
     (let t = strip s;
          neg = (t \<noteq> [] \<and> hd t = CHR ''-'');
          body = (if t \<noteq> [] \<and> (hd t = CHR ''-'' \<or> hd t = CHR ''+'') then tl t else t)
      in if int_body_ok body
         then Inr ((if neg then - 1 else 1) * int (nat_of_digits (strip_non_digits body)))
         else Inl ValueError)"

section \<open>The parsed document\<close>

text \<open>
  What \<^verbatim>\<open>BeautifulSoup(r, 'html.parser')\<close> gives: a tree of text nodes and tags. A tag has
  a name, the tokens of its \<^verbatim>\<open>class\<close> attribute (a list, as the parser keeps it) and its
  other attributes. The soup itself is the tag at the root.
\<close>

datatype node =
    Text string
  | Tag string "string list" "(string \<times> string) list" "node list"

text \<open>The tags and texts below a node, in document order, the node itself left out.\<close>

fun descendants :: "node \<Rightarrow> node list" where
  "descendants (Text s) = []"
| "descendants (Tag name classes attrs children) =
     concat (map (\<lambda>c. c # descendants c) children)"

text \<open>\<^verbatim>\<open>tag.text\<close>: the text nodes below the tag, joined in document order.\<close>

fun text_of :: "node \<Rightarrow> string" where
  "text_of (Text s) = s"
| "text_of (Tag name classes attrs children) = concat (map text_of children)"

fun join :: "string \<Rightarrow> string list \<Rightarrow> string" where
  "join sep [] = []"
| "join sep [x] = x"
| "join sep (x # y # ys) = x @ sep @ join sep (y # ys)"

text \<open>
  One entry of the attribute filter of \<^verbatim>\<open>find\<close>. The \<^verbatim>\<open>class\<close> attribute holds several
  values: the wanted string is one of them, or it is all of them joined by spaces.
\<close>

definition attr_matches :: "string list \<Rightarrow> (string \<times> string) list \<Rightarrow> string \<times> string \<Rightarrow> bool" where
  "attr_matches classes attrs kv =
     (if fst kv = ''class'' then snd kv \<in> set classes \<or> snd kv = join '' '' classes
      else map_of attrs (fst kv) = Some (snd kv))"

fun matches :: "string \<Rightarrow> (string \<times> string) list \<Rightarrow> node \<Rightarrow> bool" where
  "matches name wanted (Text s) = False"
| "matches name wanted (Tag name' classes attrs children) =
     (name' = name \<and> list_all (attr_matches classes attrs) wanted)"

text \<open>\<^verbatim>\<open>tag.findAll(name, attrs)\<close> and \<^verbatim>\<open>tag.find(name, attrs)\<close>; \<^verbatim>\<open>None\<close> is \<^const>\<open>None\<close>.\<close>

definition findAll :: "string \<Rightarrow> (string \<times> string) list \<Rightarrow> node \<Rightarrow> node list" where
  "findAll name wanted n = filter (matches name wanted) (descendants n)"

definition find_tag :: "string \<Rightarrow> (string \<times> string) list \<Rightarrow> node \<Rightarrow> node option" where
  "find_tag name wanted n = (case findAll name wanted n of [] \<Rightarrow> None | x # xs \<Rightarrow> Some x)"

text \<open>
  Navigation on the result of a \<^verbatim>\<open>find\<close>, which may be \<^verbatim>\<open>None\<close>: \<^verbatim>\<open>x.a\<close>, \<^verbatim>\<open>x.text\<close> and
  \<^verbatim>\<open>x.findAll\<close> raise \<^verbatim>\<open>AttributeError\<close> on \<^verbatim>\<open>None\<close>, \<^verbatim>\<open>x['datetime']\<close> raises \<^verbatim>\<open>TypeError\<close>
  on \<^verbatim>\<open>None\<close> and \<^verbatim>\<open>KeyError\<close> on a tag without the attribute.
\<close>

definition child_tag :: "string \<Rightarrow> node option \<Rightarrow> error + node option" where
  "child_tag name x = (case x of None \<Rightarrow> Inl AttributeError | Some n \<Rightarrow> Inr (find_tag name [] n))"

definition get_text :: "node option \<Rightarrow> error + string" where
  "get_text x = (case x of None \<Rightarrow> Inl AttributeError | Some n \<Rightarrow> Inr (text_of n))"

definition get_findAll :: "string \<Rightarrow> node option \<Rightarrow> error + node list" where
  "get_findAll name x = (case x of None \<Rightarrow> Inl AttributeError | Some n \<Rightarrow> Inr (findAll name [] n))"

fun get_attr :: "string \<Rightarrow> node option \<Rightarrow> error + string" where
  "get_attr key None = Inl TypeError"
| "get_attr key (Some (Text s)) = Inl TypeError"
| "get_attr key (Some (Tag name classes attrs children)) =
     (case map_of attrs key of None \<Rightarrow> Inl KeyError | Some v \<Rightarrow> Inr v)"

section \<open>The world outside the notebook\<close>

text \<open>
  The libraries and the network the notebook calls are parameters of the model, so every
  theorem holds whatever they answer:
  \<^item> \<open>http_get url\<close> is \<^verbatim>\<open>requests.get(url).content\<close>, or the exception it raises;
  \<^item> \<open>html_parse\<close> is \<^verbatim>\<open>BeautifulSoup(r, 'html.parser')\<close>;
  \<^item> \<open>json_loads\<close> is \<^verbatim>\<open>json.loads\<close>;
  \<^item> \<open>float_str\<close> is \<^verbatim>\<open>float\<close> on a string, \<open>float_repr\<close> is \<^verbatim>\<open>repr\<close> on a float;
  \<^item> \<open>image_open\<close> is \<^verbatim>\<open>Image.open(BytesIO(content))\<close>, \<open>image_save img path\<close> is the
    content \<^verbatim>\<open>img.save(path)\<close> writes, or the exception it raises.
\<close>

record env =
  http_get :: "string \<Rightarrow> error + string"
  html_parse :: "string \<Rightarrow> node"
  json_loads :: "string \<Rightarrow> error + pyval"
  float_str :: "string \<Rightarrow> error + pyfloat"
  float_repr :: "pyfloat \<Rightarrow> string"
  image_open :: "string \<Rightarrow> error + string"
  image_save :: "string \<Rightarrow> string \<Rightarrow> error + string"

text \<open>
  What the notebook changes outside itself: the files on disk (\<^verbatim>\<open>os.path.isfile(p)\<close> is
  \<open>files w p \<noteq> None\<close>) and the requests sent, oldest first.
\<close>

record world =
  files :: "string \<Rightarrow> string option"
  requests :: "string list"

section \<open>Operations on Python objects\<close>

text \<open>\<^verbatim>\<open>obj[key]\<close> with a string key.\<close>

fun getitem :: "pyval \<Rightarrow> string \<Rightarrow> error + pyval" where
  "getitem (PDict kvs) key = (case map_of kvs key of None \<Rightarrow> Inl KeyError | Some v \<Rightarrow> Inr v)"
| "getitem v key = Inl TypeError"

text \<open>\<^verbatim>\<open>key in obj\<close> with a string key.\<close>

fun py_in :: "string \<Rightarrow> pyval \<Rightarrow> error + bool" where
  "py_in key (PDict kvs) = Inr (map_of kvs key \<noteq> None)"
| "py_in key (PList xs) = Inr (PStr key \<in> set xs)"
| "py_in key (PStr s) = Inr (contains key s)"
| "py_in key v = Inl TypeError"

text \<open>
  \<^verbatim>\<open>float(obj)\<close>. An integer too large for binary64 raises \<^verbatim>\<open>OverflowError\<close>.
\<close>

definition float_of_int :: "int \<Rightarrow> error + pyfloat" where
  "float_of_int i =
     (case float_of_nat (nat \<bar>i\<bar>) of
        FReal x \<Rightarrow> Inr (FReal (if i < 0 then - x else x))
      | other \<Rightarrow> Inl OverflowError)"

fun py_float :: "env \<Rightarrow> pyval \<Rightarrow> error + pyfloat" where
  "py_float E (PFloat x) = Inr x"
| "py_float E (PInt i) = float_of_int i"
| "py_float E (PBool b) = Inr (FReal (if b then 1 else 0))"
| "py_float E (PStr s) = float_str E s"
| "py_float E v = Inl TypeError"

section \<open>The scraper: \<^verbatim>\<open>imdb_scrape\<close>\<close>

text \<open>The dictionary \<^verbatim>\<open>imdb_info_dict\<close>, with its fifteen fixed keys.\<close>

record imdb_info =
  tconst :: string
  title :: pyval
  release_year :: pyval
  release_date :: pyval
  MPAA :: pyval
  genre :: pyval
  runtime :: pyval
  poster_url :: pyval
  plot_short :: pyval
  plot_long :: pyval
  imdb_rating :: pyval
  num_imdb_votes :: pyval
  metacritic :: pyval
  num_user_reviews :: pyval
  num_critic_reviews :: pyval

text \<open>
  \<^verbatim>\<open>
  imdb_info_dict = {'tconst':imdb_id,'title':'',    'release_year':'',      'release_date':'',
                    'MPAA':'',       'genre':[],    'runtime':'',           'poster_url':'',
                    'plot_short':'', 'plot_long':'', 'imdb_rating':'',      'num_imdb_votes':'',
                    'metacritic':'', 'num_user_reviews':'',                 'num_critic_reviews':''
                   }
  imdb_info_dict['tconst'] = imdb_id
  \<close>
\<close>

definition initial_info :: "string \<Rightarrow> imdb_info" where
  "initial_info imdb_id =
     \<lparr> tconst = imdb_id, title = PStr '''', release_year = PStr '''', release_date = PStr '''',
       MPAA = PStr '''', genre = PList [], runtime = PStr '''', poster_url = PStr '''',
       plot_short = PStr '''', plot_long = PStr '''', imdb_rating = PStr '''',
       num_imdb_votes = PStr '''', metacritic = PStr '''', num_user_reviews = PStr '''',
       num_critic_reviews = PStr '''' \<rparr>"

text \<open>Sequencing: the first exception ends the computation.\<close>

definition bindE :: "error + 'a \<Rightarrow> ('a \<Rightarrow> error + 'b) \<Rightarrow> error + 'b" where
  "bindE m f = (case m of Inl e \<Rightarrow> Inl e | Inr x \<Rightarrow> f x)"

fun run :: "('s \<Rightarrow> error + 's) list \<Rightarrow> 's \<Rightarrow> error + 's" where
  "run [] d = Inr d"
| "run (stmt # stmts) d = bindE (stmt d) (run stmts)"

text \<open>
  \<^verbatim>\<open>
  json_dict = json.loads( str( soup.findAll('script', {'type':'application/ld+json'})[0].text ))
  \<close>
\<close>

definition load_json_dict :: "env \<Rightarrow> node \<Rightarrow> error + pyval" where
  "load_json_dict E soup =
     (case findAll ''script'' [(''type'', ''application/ld+json'')] soup of
        [] \<Rightarrow> Inl IndexError
      | script # others \<Rightarrow> json_loads E (text_of script))"

text \<open>
  The statements of the body, in the order of the source. Each takes the dictionary and
  returns it updated, or the exception raised.
  \<^verbatim>\<open>
  imdb_info_dict['title'] = json_dict['name']
  if 'contentRating' in json_dict:
      imdb_info_dict['MPAA'] = json_dict['contentRating']
  imdb_info_dict['poster_url'] = json_dict['image']
  imdb_info_dict['release_year'] = int( soup.find('span', {'id':'titleYear'}).a.text )
  imdb_info_dict['runtime'] = to_numeric( soup.find('time')['datetime'] )
  \<close>
\<close>

definition set_title :: "pyval \<Rightarrow> imdb_info \<Rightarrow> error + imdb_info" where
  "set_title json_dict d = bindE (getitem json_dict ''name'') (\<lambda>v. Inr (d\<lparr>title := v\<rparr>))"

definition set_MPAA :: "pyval \<Rightarrow> imdb_info \<Rightarrow> error + imdb_info" where
  "set_MPAA json_dict d =
     bindE (py_in ''contentRating'' json_dict) (\<lambda>present.
       if present
       then bindE (getitem json_dict ''contentRating'') (\<lambda>v. Inr (d\<lparr>MPAA := v\<rparr>))
       else Inr d)"

definition set_poster_url :: "pyval \<Rightarrow> imdb_info \<Rightarrow> error + imdb_info" where
  "set_poster_url json_dict d =
     bindE (getitem json_dict ''image'') (\<lambda>v. Inr (d\<lparr>poster_url := v\<rparr>))"

definition set_release_year :: "node \<Rightarrow> imdb_info \<Rightarrow> error + imdb_info" where
  "set_release_year soup d =
     bindE (child_tag ''a'' (find_tag ''span'' [(''id'', ''titleYear'')] soup)) (\<lambda>a.
     bindE (get_text a) (\<lambda>t.
     bindE (int_str t) (\<lambda>i. Inr (d\<lparr>release_year := PInt i\<rparr>))))"

definition set_runtime :: "node \<Rightarrow> imdb_info \<Rightarrow> error + imdb_info" where
  "set_runtime soup d =
     bindE (get_attr ''datetime'' (find_tag ''time'' [] soup)) (\<lambda>t.
     bindE (to_numeric t ''int'') (\<lambda>v. Inr (d\<lparr>runtime := v\<rparr>)))"

text \<open>
  \<^verbatim>\<open>
  date_string = soup.find('div', {'class':'title_wrapper'}).findAll('a')[-1].text.split(' (')[0]
  imdb_info_dict['release_date'] = date_string
  imdb_info_dict['genre'] = json_dict['genre']
  imdb_info_dict['imdb_rating'] = float( json_dict['aggregateRating']['ratingValue'] )
  imdb_info_dict['num_imdb_votes'] = json_dict['aggregateRating']['ratingCount']
  \<close>
\<close>

definition set_release_date :: "node \<Rightarrow> imdb_info \<Rightarrow> error + imdb_info" where
  "set_release_date soup d =
     bindE (get_findAll ''a'' (find_tag ''div'' [(''class'', ''title_wrapper'')] soup)) (\<lambda>links.
       if links = [] then Inl IndexError
       else Inr (d\<lparr>release_date := PStr (split_first '' ('' (text_of (last links)))\<rparr>))"

definition set_genre :: "pyval \<Rightarrow> imdb_info \<Rightarrow> error + imdb_info" where
  "set_genre json_dict d = bindE (getitem json_dict ''genre'') (\<lambda>v. Inr (d\<lparr>genre := v\<rparr>))"

definition set_imdb_rating :: "env \<Rightarrow> pyval \<Rightarrow> imdb_info \<Rightarrow> error + imdb_info" where
  "set_imdb_rating E json_dict d =
     bindE (getitem json_dict ''aggregateRating'') (\<lambda>agg.
     bindE (getitem agg ''ratingValue'') (\<lambda>v.
     bindE (py_float E v) (\<lambda>x. Inr (d\<lparr>imdb_rating := PFloat x\<rparr>))))"

definition set_num_imdb_votes :: "pyval \<Rightarrow> imdb_info \<Rightarrow> error + imdb_info" where
  "set_num_imdb_votes json_dict d =
     bindE (getitem json_dict ''aggregateRating'') (\<lambda>agg.
     bindE (getitem agg ''ratingCount'') (\<lambda>v. Inr (d\<lparr>num_imdb_votes := v\<rparr>)))"

text \<open>
  \<^verbatim>\<open>
  if soup.find('div', {'class':'metacriticScore'}) != None:
      imdb_info_dict['metacritic'] = int( soup.find('div', {'class':'metacriticScore'}).span.text )
  \<close>
\<close>

definition set_metacritic :: "node \<Rightarrow> imdb_info \<Rightarrow> error + imdb_info" where
  "set_metacritic soup d =
     (if find_tag ''div'' [(''class'', ''metacriticScore'')] soup \<noteq> None
      then
        bindE (child_tag ''span'' (find_tag ''div'' [(''class'', ''metacriticScore'')] soup)) (\<lambda>span.
        bindE (get_text span) (\<lambda>t.
        bindE (int_str t) (\<lambda>i. Inr (d\<lparr>metacritic := PInt i\<rparr>))))
      else Inr d)"

text \<open>
  \<^verbatim>\<open>
  num_review_list = soup.findAll('div',{'class':'titleReviewBarItem titleReviewbarItemBorder'})
  if num_review_list != []:
      reviews = num_review_list[0].findAll('a')
      if len(reviews) > 1:
          imdb_info_dict['num_critic_reviews'] = to_numeric( reviews[1].text )
      if len(reviews) > 0:
          imdb_info_dict['num_user_reviews'] = to_numeric( reviews[0].text )
  \<close>
\<close>

definition num_review_list :: "node \<Rightarrow> node list" where
  "num_review_list soup =
     findAll ''div'' [(''class'', ''titleReviewBarItem titleReviewbarItemBorder'')] soup"

definition set_num_critic_reviews :: "node list \<Rightarrow> imdb_info \<Rightarrow> error + imdb_info" where
  "set_num_critic_reviews reviews d =
     (if length reviews > 1
      then bindE (to_numeric (text_of (reviews ! 1)) ''int'') (\<lambda>v.
             Inr (d\<lparr>num_critic_reviews := v\<rparr>))
      else Inr d)"

definition set_num_user_reviews :: "node list \<Rightarrow> imdb_info \<Rightarrow> error + imdb_info" where
  "set_num_user_reviews reviews d =
     (if length reviews > 0
      then bindE (to_numeric (text_of (reviews ! 0)) ''int'') (\<lambda>v.
             Inr (d\<lparr>num_user_reviews := v\<rparr>))
      else Inr d)"

definition set_reviews :: "node \<Rightarrow> imdb_info \<Rightarrow> error + imdb_info" where
  "set_reviews soup d =
     (if num_review_list soup \<noteq> []
      then
        (let reviews = findAll ''a'' [] (hd (num_review_list soup))
         in bindE (set_num_critic_reviews reviews d) (set_num_user_reviews reviews))
      else Inr d)"

text \<open>
  \<^verbatim>\<open>
  imdb_info_dict['plot_short'] = soup.find('div',{'class':'summary_text'}).text.strip()
  if 'Add a Plot' in imdb_info_dict['plot_short']:
      imdb_info_dict['plot_short'] = ''
  if soup.find('div',{'id':'titleStoryLine'}).div.p != None:
      imdb_info_dict['plot_long'] = soup.find('div',{'id':'titleStoryLine'}).div.p.span.text.strip()
  \<close>
\<close>

definition set_plot_short :: "node \<Rightarrow> imdb_info \<Rightarrow> error + imdb_info" where
  "set_plot_short soup d =
     bindE (get_text (find_tag ''div'' [(''class'', ''summary_text'')] soup)) (\<lambda>t.
       if contains ''Add a Plot'' (strip t)
       then Inr (d\<lparr>plot_short := PStr ''''\<rparr>)
       else Inr (d\<lparr>plot_short := PStr (strip t)\<rparr>))"

definition story_line_p :: "node \<Rightarrow> error + node option" where
  "story_line_p soup =
     bindE (child_tag ''div'' (find_tag ''div'' [(''id'', ''titleStoryLine'')] soup))
       (\<lambda>inner. child_tag ''p'' inner)"

definition set_plot_long :: "node \<Rightarrow> imdb_info \<Rightarrow> error + imdb_info" where
  "set_plot_long soup d =
     bindE (story_line_p soup) (\<lambda>p.
       if p \<noteq> None
       then
         bindE (child_tag ''span'' p) (\<lambda>span.
         bindE (get_text span) (\<lambda>t. Inr (d\<lparr>plot_long := PStr (strip t)\<rparr>)))
       else Inr d)"

text \<open>
  The body of \<^verbatim>\<open>imdb_scrape\<close> from the decoding of the payload to the long plot, on the
  parsed document.
\<close>

definition statements :: "env \<Rightarrow> pyval \<Rightarrow> node \<Rightarrow> (imdb_info \<Rightarrow> error + imdb_info) list" where
  "statements E json_dict soup =
     [set_title json_dict, set_MPAA json_dict, set_poster_url json_dict,
      set_release_year soup, set_runtime soup, set_release_date soup,
      set_genre json_dict, set_imdb_rating E json_dict, set_num_imdb_votes json_dict,
      set_metacritic soup, set_reviews soup, set_plot_short soup, set_plot_long soup]"

definition scrape_soup :: "env \<Rightarrow> string \<Rightarrow> node \<Rightarrow> error + imdb_info" where
  "scrape_soup E imdb_id soup =
     bindE (load_json_dict E soup) (\<lambda>json_dict.
       run (statements E json_dict soup) (initial_info imdb_id))"

section \<open>The poster: \<^verbatim>\<open>savePoster\<close>\<close>

text \<open>
  \<^verbatim>\<open>
  def savePoster(imdb_id, img_url):
      ext = img_url.split('.')[-1]
      if os.path.isfile(f'posters/{imdb_id}.{ext}'):
          return False
      response = requests.get(img_url)
      img = Image.open(BytesIO(response.content))
      img.save(f'posters/{imdb_id}.{ext}')
      return True
  \<close>
  An \<^verbatim>\<open>img_url\<close> that is not a string has no \<^verbatim>\<open>split\<close>. A request that raises is still
  a request sent; a save that raises is taken to leave no file.
\<close>

definition poster_path :: "string \<Rightarrow> string \<Rightarrow> string" where
  "poster_path imdb_id ext = ''posters/'' @ imdb_id @ ''.'' @ ext"

fun savePoster :: "env \<Rightarrow> string \<Rightarrow> pyval \<Rightarrow> world \<Rightarrow> (error + bool) \<times> world" where
  "savePoster E imdb_id (PStr img_url) w =
     (let ext = split_last CHR ''.'' img_url in
      if files w (poster_path imdb_id ext) \<noteq> None then (Inr False, w)
      else
        let w1 = w\<lparr>requests := requests w @ [img_url]\<rparr> in
        case http_get E img_url of
          Inl e \<Rightarrow> (Inl e, w1)
        | Inr content \<Rightarrow>
            (case image_open E content of
               Inl e \<Rightarrow> (Inl e, w1)
             | Inr img \<Rightarrow>
                 (case image_save E img (poster_path imdb_id ext) of
                    Inl e \<Rightarrow> (Inl e, w1)
                  | Inr written \<Rightarrow>
                      (Inr True,
                       w1\<lparr>files := (files w1)(poster_path imdb_id ext \<mapsto> written)\<rparr>))))"
| "savePoster E imdb_id v w = (Inl AttributeError, w)"

section \<open>The whole of \<^verbatim>\<open>imdb_scrape\<close>\<close>

text \<open>
  \<^verbatim>\<open>
  imdb_full_url = imdb_base_url + imdb_id
  r = requests.get(imdb_full_url).content
  soup = BeautifulSoup(r, 'html.parser')
  ...
  if save_image == True:
      img_status = savePoster(imdb_id, imdb_info_dict['poster_url'])
  ...
  print(f"{(imdb_info_dict['title']+' ('+str(imdb_info_dict['release_year'])+')')[:100]:100} ", end='')
  ...
  return imdb_info_dict
  \<close>
  The last \<^verbatim>\<open>print\<close> adds a string to the title, which raises \<^verbatim>\<open>TypeError\<close> unless the
  title is a string. The function has no \<^verbatim>\<open>try\<close>: every exception leaves it.
\<close>

definition imdb_scrape :: "env \<Rightarrow> string \<Rightarrow> bool \<Rightarrow> world \<Rightarrow> (error + imdb_info) \<times> world" where
  "imdb_scrape E imdb_id save_image w =
     (let imdb_full_url = ''https://www.imdb.com/title/'' @ imdb_id;
          w1 = w\<lparr>requests := requests w @ [imdb_full_url]\<rparr>
      in case http_get E imdb_full_url of
           Inl e \<Rightarrow> (Inl e, w1)
         | Inr r \<Rightarrow>
             (case scrape_soup E imdb_id (html_parse E r) of
                Inl e \<Rightarrow> (Inl e, w1)
              | Inr d \<Rightarrow>
                  (case (if save_image then savePoster E imdb_id (poster_url d) w1
                         else (Inr False, w1)) of
                     (Inl e, w2) \<Rightarrow> (Inl e, w2)
                   | (Inr img_status, w2) \<Rightarrow>
                       (case title d of
                          PStr t \<Rightarrow> (Inr d, w2)
                        | other \<Rightarrow> (Inl TypeError, w2)))))"

section \<open>The batch loop\<close>

text \<open>
  \<^verbatim>\<open>
  for i, tconst in enumerate(movies_in_year['tconst'].values):
      try:
          scraped_movie_info = imdb_scrape(tconst, True)
          annual_movie_list.append(scraped_movie_info)
      except Exception:
          failed_list.append(tconst)
          fails+=1
  \<close>
\<close>

record batch =
  annual_movie_list :: "imdb_info list"
  failed_list :: "string list"
  fails :: nat

definition loop_body :: "env \<Rightarrow> string \<Rightarrow> batch \<times> world \<Rightarrow> batch \<times> world" where
  "loop_body E key bw =
     (case imdb_scrape E key True (snd bw) of
        (Inr scraped_movie_info, w') \<Rightarrow>
          ((fst bw)\<lparr>annual_movie_list := annual_movie_list (fst bw) @ [scraped_movie_info]\<rparr>, w')
      | (Inl e, w') \<Rightarrow>
          ((fst bw)\<lparr>failed_list := failed_list (fst bw) @ [key], fails := fails (fst bw) + 1\<rparr>, w'))"

fun scrape_loop :: "env \<Rightarrow> string list \<Rightarrow> batch \<times> world \<Rightarrow> batch \<times> world" where
  "scrape_loop E [] bw = bw"
| "scrape_loop E (key # keys) bw = scrape_loop E keys (loop_body E key bw)"

section \<open>Rendering: \<^verbatim>\<open>str\<close>, \<^verbatim>\<open>repr\<close>, \<^verbatim>\<open>concatenate_list_data\<close> and the table file\<close>

definition digit_char :: "nat \<Rightarrow> char" where
  "digit_char n = char_of (48 + n)"

fun dec_nat :: "nat \<Rightarrow> string" where
  "dec_nat n = (if n < 10 then [digit_char n] else dec_nat (n div 10) @ [digit_char (n mod 10)])"

declare dec_nat.simps [simp del]

definition int_repr :: "int \<Rightarrow> string" where
  "int_repr i = (if i < 0 then ''-'' @ dec_nat (nat (- i)) else dec_nat (nat i))"

definition hex_char :: "nat \<Rightarrow> char" where
  "hex_char n = (if n < 10 then char_of (48 + n) else char_of (87 + n))"

text \<open>
  \<^verbatim>\<open>repr\<close> of a string: double quotes when the string has a single quote and no double
  quote, single quotes otherwise; the quote, the backslash and what does not print are
  escaped.
\<close>

definition repr_quote :: "string \<Rightarrow> char" where
  "repr_quote s =
     (if char_of (39::nat) \<in> set s \<and> char_of (34::nat) \<notin> set s then char_of (34::nat)
      else char_of (39::nat))"

definition repr_char :: "char \<Rightarrow> char \<Rightarrow> string" where
  "repr_char q c =
     (let n = (of_char c :: nat) in
      if c = q \<or> n = 92 then [char_of (92::nat), c]
      else if n = 9 then [char_of (92::nat), CHR ''t'']
      else if n = 10 then [char_of (92::nat), CHR ''n'']
      else if n = 13 then [char_of (92::nat), CHR ''r'']
      else if n < 32 \<or> n = 127 \<or> (128 \<le> n \<and> n \<le> 160) \<or> n = 173
      then [char_of (92::nat), CHR ''x'', hex_char (n div 16), hex_char (n mod 16)]
      else [c])"

definition str_repr :: "string \<Rightarrow> string" where
  "str_repr s = [repr_quote s] @ concat (map (repr_char (repr_quote s)) s) @ [repr_quote s]"

fun py_repr :: "env \<Rightarrow> pyval \<Rightarrow> string" where
  "py_repr E PNone = ''None''"
| "py_repr E (PBool b) = (if b then ''True'' else ''False'')"
| "py_repr E (PInt i) = int_repr i"
| "py_repr E (PFloat x) = float_repr E x"
| "py_repr E (PStr s) = str_repr s"
| "py_repr E (PList xs) = ''['' @ join '', '' (map (py_repr E) xs) @ '']''"
| "py_repr E (PDict kvs) =
     ''{'' @ join '', '' (map (\<lambda>kv. str_repr (fst kv) @ '': '' @ py_repr E (snd kv)) kvs) @ ''}''"

fun py_str :: "env \<Rightarrow> pyval \<Rightarrow> string" where
  "py_str E (PStr s) = s"
| "py_str E v = py_repr E v"

text \<open>
  \<^verbatim>\<open>for element in obj\<close>: the items of a list, the characters of a string, the keys of a
  dict (an association list standing for a dict has no key twice); nothing else here can
  be iterated.
\<close>

fun py_iter :: "pyval \<Rightarrow> error + pyval list" where
  "py_iter (PList xs) = Inr xs"
| "py_iter (PStr s) = Inr (map (\<lambda>c. PStr [c]) s)"
| "py_iter (PDict kvs) = Inr (map (\<lambda>kv. PStr (fst kv)) kvs)"
| "py_iter v = Inl TypeError"

text \<open>
  \<^verbatim>\<open>
  def concatenate_list_data(my_list):
      result = ''
      for element in my_list:
          result += str(element)
      return result
  \<close>
\<close>

definition concatenate_list_data :: "env \<Rightarrow> pyval \<Rightarrow> error + string" where
  "concatenate_list_data E my_list =
     bindE (py_iter my_list) (\<lambda>elements.
       Inr (foldl (\<lambda>result element. result @ py_str E element) [] elements))"

text \<open>
  \<^verbatim>\<open>
  my_df = pd.DataFrame(annual_movie_list)
  my_df.to_csv(f'rawdata/imdb_scrape_{yr}.tsv', sep='\t', quoting=csv.QUOTE_ALL, index=False)
  \<close>
  A cell of a column that holds Python objects is written as \<^verbatim>\<open>str\<close> gives it, empty for
  \<^verbatim>\<open>None\<close> and NaN, between double quotes, a double quote inside written twice. The notebook
  calls \<^verbatim>\<open>concatenate_list_data\<close> nowhere.
\<close>

definition csv_quote :: "string \<Rightarrow> string" where
  "csv_quote s =
     [char_of (34::nat)]
     @ concat (map (\<lambda>c. if c = char_of (34::nat) then [c, c] else [c]) s)
     @ [char_of (34::nat)]"

definition csv_cell :: "env \<Rightarrow> pyval \<Rightarrow> string" where
  "csv_cell E v = csv_quote (if v = PNone \<or> v = PFloat FNaN then [] else py_str E v)"

definition genre_field :: "env \<Rightarrow> imdb_info \<Rightarrow> string" where
  "genre_field E row = csv_cell E (genre row)"

section \<open>What the loop attempted\<close>

text \<open>
  The outcome of each call of \<^verbatim>\<open>imdb_scrape\<close> the loop makes, one per key and in the order
  of the keys, each call starting in the world the call before left.
\<close>

fun attempts :: "env \<Rightarrow> string list \<Rightarrow> world \<Rightarrow> (string \<times> (error + imdb_info)) list" where
  "attempts E [] w = []"
| "attempts E (key # keys) w =
     (key, fst (imdb_scrape E key True w)) # attempts E keys (snd (imdb_scrape E key True w))"

fun scraped :: "(string \<times> (error + imdb_info)) list \<Rightarrow> imdb_info list" where
  "scraped [] = []"
| "scraped ((key, Inr info) # rest) = info # scraped rest"
| "scraped ((key, Inl e) # rest) = scraped rest"

fun failed :: "(string \<times> (error + imdb_info)) list \<Rightarrow> string list" where
  "failed [] = []"
| "failed ((key, Inr info) # rest) = failed rest"
| "failed ((key, Inl e) # rest) = key # failed rest"

section \<open>A page to run the scraper on\<close>

text \<open>
  The page of \<^verbatim>\<open>tt0107290\<close> as the notebook's sample run shows it, cut down to the
  elements the scraper looks for.
\<close>

definition payload_text :: string where
  \<open>payload_text =
     ''{"name": "Jurassic Park", "image": "https://m.media-amazon.com/images/M/poster.jpg", "genre": ["Action", "Adventure", "Sci-Fi", "Thriller"], "contentRating": "PG-13", "aggregateRating": {"ratingCount": 820733, "ratingValue": "8.1"}}''\<close>

definition jurassic_genres :: "string list" where
  "jurassic_genres = [''Action'', ''Adventure'', ''Sci-Fi'', ''Thriller'']"

definition jurassic_json :: pyval where
  "jurassic_json =
     PDict [(''name'', PStr ''Jurassic Park''),
            (''image'', PStr ''https://m.media-amazon.com/images/M/poster.jpg''),
            (''genre'', PList (map PStr jurassic_genres)),
            (''contentRating'', PStr ''PG-13''),
            (''aggregateRating'',
               PDict [(''ratingCount'', PInt 820733), (''ratingValue'', PStr ''8.1'')])]"

text \<open>The same payload without the rating block, as a title nobody has rated has it.\<close>

definition unrated_json :: pyval where
  "unrated_json =
     PDict [(''name'', PStr ''Jurassic Park''),
            (''image'', PStr ''https://m.media-amazon.com/images/M/poster.jpg''),
            (''genre'', PList (map PStr jurassic_genres)),
            (''contentRating'', PStr ''PG-13'')]"

text \<open>The same payload without the content rating.\<close>

definition uncertified_json :: pyval where
  "uncertified_json =
     PDict [(''name'', PStr ''Jurassic Park''),
            (''image'', PStr ''https://m.media-amazon.com/images/M/poster.jpg''),
            (''genre'', PList (map PStr jurassic_genres)),
            (''aggregateRating'',
               PDict [(''ratingCount'', PInt 820733), (''ratingValue'', PStr ''8.1'')])]"

definition document :: "node list \<Rightarrow> node" where
  "document children = Tag ''[document]'' [] [] children"

definition script_tag :: node where
  "script_tag = Tag ''script'' [] [(''type'', ''application/ld+json'')] [Text payload_text]"

definition year_tag :: node where
  "year_tag =
     Tag ''span'' [] [(''id'', ''titleYear'')]
       [Text ''('', Tag ''a'' [] [(''href'', ''/year/1993/'')] [Text ''1993''], Text '')'']"

definition time_tag :: node where
  "time_tag = Tag ''time'' [] [(''datetime'', ''PT127M'')] [Text ''2h 7min'']"

definition title_wrapper_tag :: node where
  "title_wrapper_tag =
     Tag ''div'' [''title_wrapper''] []
       [Tag ''h1'' [] [] [Text ''Jurassic Park '', year_tag],
        Tag ''div'' [''subtext''] []
          [Text ''PG-13 | '',
           Tag ''a'' [] [(''href'', ''/genre/Action'')] [Text ''Action''],
           Tag ''a'' [] [(''title'', ''See more release dates'')] [Text ''11 June 1993 (USA)'']]]"

definition metacritic_tag :: node where
  "metacritic_tag =
     Tag ''div'' [''metacriticScore'', ''score_favorable'', ''titleReviewBarSubItem''] []
       [Tag ''span'' [] [] [Text ''68'']]"

definition review_bar_tag :: node where
  "review_bar_tag =
     Tag ''div'' [''titleReviewBarItem'', ''titleReviewbarItemBorder''] []
       [Tag ''div'' [] [] [Text ''Reviews''],
        Tag ''span'' [''subText''] []
          [Tag ''a'' [] [(''href'', ''reviews'')] [Text ''1,085 user''],
           Text '' | '',
           Tag ''a'' [] [(''href'', ''externalreviews'')] [Text ''355 critic'']]]"

definition summary_tag :: node where
  "summary_tag =
     Tag ''div'' [''summary_text''] [] [Text ''   A park of cloned dinosaurs loses power.  '']"

definition story_line_tag :: node where
  "story_line_tag =
     Tag ''div'' [''article''] [(''id'', ''titleStoryLine'')]
       [Tag ''h2'' [] [] [Text ''Storyline''],
        Tag ''div'' [''inline'', ''canwrap''] []
          [Tag ''p'' [] [] [Tag ''span'' [] [] [Text '' Dinosaurs roam the island. '']]]]"

definition jurassic_page :: node where
  "jurassic_page =
     document [script_tag, title_wrapper_tag, time_tag, metacritic_tag, review_bar_tag,
       summary_tag, story_line_tag]"

text \<open>The page without its \<^verbatim>\<open>time\<close> element, everything else in place.\<close>

definition page_without_time :: node where
  "page_without_time =
     document [script_tag, title_wrapper_tag, metacritic_tag, review_bar_tag,
       summary_tag, story_line_tag]"

text \<open>The page without critic score and without review bar.\<close>

definition page_without_reviews :: node where
  "page_without_reviews =
     document [script_tag, title_wrapper_tag, time_tag, summary_tag, story_line_tag]"

text \<open>The page whose story line has no paragraph.\<close>

definition page_without_paragraph :: node where
  "page_without_paragraph =
     document [script_tag, title_wrapper_tag, time_tag, metacritic_tag, review_bar_tag,
       summary_tag,
       Tag ''div'' [''article''] [(''id'', ''titleStoryLine'')]
         [Tag ''h2'' [] [] [Text ''Storyline''],
          Tag ''div'' [''inline'', ''canwrap''] [] [Text ''Add Full Plot'']]]"

text \<open>A page with the given text as its summary.\<close>

definition page_with_plot :: "string \<Rightarrow> node" where
  "page_with_plot plot =
     document [script_tag, title_wrapper_tag, time_tag, metacritic_tag, review_bar_tag,
       Tag ''div'' [''summary_text''] [] [Text plot], story_line_tag]"

text \<open>
  A network that serves one page and one poster, and libraries that know the payload
  above. \<open>float_str\<close> gives the binary64 value of \<^verbatim>\<open>"8.1"\<close>.
\<close>

definition site :: "node \<Rightarrow> pyval \<Rightarrow> env" where
  "site page payload =
     \<lparr> http_get = (\<lambda>url.
         if url = ''https://www.imdb.com/title/tt0107290'' then Inr ''<!DOCTYPE html>''
         else if url = ''https://m.media-amazon.com/images/M/poster.jpg'' then Inr ''JFIF''
         else Inl RequestException),
       html_parse = (\<lambda>r. page),
       json_loads = (\<lambda>s. if s = payload_text then Inr payload else Inl JSONDecodeError),
       float_str = (\<lambda>s.
         if s = ''8.1'' then Inr (FReal (4559894622712627 / 562949953421312))
         else Inl ValueError),
       float_repr = (\<lambda>x. ''8.1''),
       image_open = (\<lambda>content. if content = ''JFIF'' then Inr ''pixels'' else Inl ImageError),
       image_save = (\<lambda>img path. Inr ''JFIF'') \<rparr>"

definition empty_world :: world where
  "empty_world = \<lparr> files = (\<lambda>path. None), requests = [] \<rparr>"

definition jurassic_info :: imdb_info where
  "jurassic_info =
     \<lparr> tconst = ''tt0107290'', title = PStr ''Jurassic Park'', release_year = PInt 1993,
       release_date = PStr ''11 June 1993'', MPAA = PStr ''PG-13'',
       genre = PList (map PStr jurassic_genres), runtime = PInt 127,
       poster_url = PStr ''https://m.media-amazon.com/images/M/poster.jpg'',
       plot_short = PStr ''A park of cloned dinosaurs loses power.'',
       plot_long = PStr ''Dinosaurs roam the island.'',
       imdb_rating = PFloat (FReal (4559894622712627 / 562949953421312)),
       num_imdb_votes = PInt 820733, metacritic = PInt 68, num_user_reviews = PInt 1085,
       num_critic_reviews = PInt 355 \<rparr>"

section \<open>Properties of the numeric coercion\<close>

text \<open>
  Claim C2. \<^verbatim>\<open>to_numeric\<close> deletes every non-digit character and reads the digits that
  remain: \<^verbatim>\<open>"1,085 reviews"\<close> gives the integer 1085, \<^verbatim>\<open>"127 min"\<close> gives 127, \<^verbatim>\<open>"8.1"\<close> as
  a float gives 81.0, and the empty string raises \<^verbatim>\<open>ValueError\<close>, as does every string
  without a digit. With a digit, the result is the number the digits spell, as an integer
  or as the nearest float.
\<close>

theorem to_numeric_examples:
  "to_numeric ''1,085 reviews'' ''int'' = Inr (PInt 1085) \<and>
   to_numeric ''127 min'' ''int'' = Inr (PInt 127) \<and>
   to_numeric ''8.1'' ''float'' = Inr (PFloat (FReal 81)) \<and>
   to_numeric '''' ''int'' = Inl ValueError \<and>
   (\<forall>s. to_numeric s ''int'' =
      (if filter is_digit s = [] then Inl ValueError
       else Inr (PInt (int (nat_of_digits (filter is_digit s)))))) \<and>
   (\<forall>s. to_numeric s ''float'' =
      (if filter is_digit s = [] then Inl ValueError
       else Inr (PFloat (float_of_nat (nat_of_digits (filter is_digit s))))))"
proof -
  have examples:
    "to_numeric ''1,085 reviews'' ''int'' = Inr (PInt 1085)"
    "to_numeric ''127 min'' ''int'' = Inr (PInt 127)"
    "to_numeric ''8.1'' ''float'' = Inr (PFloat (FReal 81))"
    "to_numeric '''' ''int'' = Inl ValueError"
    by (simp_all add: to_numeric_def strip_non_digits_def int_digits_def float_digits_def
        float_of_nat_def nat_of_digits_def is_digit_def digit_val_def)
  have ints: "to_numeric s ''int'' =
      (if filter is_digit s = [] then Inl ValueError
       else Inr (PInt (int (nat_of_digits (filter is_digit s)))))" for s
    by (simp add: to_numeric_def strip_non_digits_def int_digits_def)
  have floats: "to_numeric s ''float'' =
      (if filter is_digit s = [] then Inl ValueError
       else Inr (PFloat (float_of_nat (nat_of_digits (filter is_digit s)))))" for s
    by (simp add: to_numeric_def strip_non_digits_def float_digits_def)
  from examples ints floats show ?thesis
    by blast
qed

section \<open>Sequencing and the statements of the body\<close>

lemma bindE_Inl [simp]: "bindE (Inl e) f = Inl e"
  by (simp add: bindE_def)

lemma bindE_Inr [simp]: "bindE (Inr x) f = f x"
  by (simp add: bindE_def)

lemma bindE_eq_Inr: "bindE m f = Inr y \<longleftrightarrow> (\<exists>x. m = Inr x \<and> f x = Inr y)"
  by (cases m) simp_all

text \<open>A run of the body that returns went through every statement.\<close>

lemma scrape_soup_statements:
  assumes "scrape_soup E imdb_id soup = Inr r"
  shows "\<exists>json_dict d1 d2 d3 d4 d5 d6 d7 d8 d9 d10 d11 d12.
           load_json_dict E soup = Inr json_dict \<and>
           set_title json_dict (initial_info imdb_id) = Inr d1 \<and>
           set_MPAA json_dict d1 = Inr d2 \<and>
           set_poster_url json_dict d2 = Inr d3 \<and>
           set_release_year soup d3 = Inr d4 \<and>
           set_runtime soup d4 = Inr d5 \<and>
           set_release_date soup d5 = Inr d6 \<and>
           set_genre json_dict d6 = Inr d7 \<and>
           set_imdb_rating E json_dict d7 = Inr d8 \<and>
           set_num_imdb_votes json_dict d8 = Inr d9 \<and>
           set_metacritic soup d9 = Inr d10 \<and>
           set_reviews soup d10 = Inr d11 \<and>
           set_plot_short soup d11 = Inr d12 \<and>
           set_plot_long soup d12 = Inr r"
  using assms unfolding scrape_soup_def statements_def
  by (simp add: bindE_eq_Inr)

text \<open>A call that returns a dictionary fetched a page and ran the body on it.\<close>

lemma imdb_scrape_returns:
  assumes "imdb_scrape E imdb_id save_image w = (Inr r, w')"
  shows "\<exists>body. http_get E (''https://www.imdb.com/title/'' @ imdb_id) = Inr body \<and>
           scrape_soup E imdb_id (html_parse E body) = Inr r"
  using assms unfolding imdb_scrape_def Let_def
  by (auto split: sum.splits prod.splits pyval.splits if_splits)

lemma imdb_scrape_raises:
  assumes "http_get E (''https://www.imdb.com/title/'' @ imdb_id) = Inr body"
    and "scrape_soup E imdb_id (html_parse E body) = Inl e"
  shows "fst (imdb_scrape E imdb_id save_image w) = Inl e"
  using assms unfolding imdb_scrape_def Let_def by simp

text \<open>What each statement leaves as it was.\<close>

lemma set_title_frame:
  "set_title j d = Inr d' \<Longrightarrow>
     tconst d' = tconst d \<and> MPAA d' = MPAA d \<and> metacritic d' = metacritic d \<and>
     num_user_reviews d' = num_user_reviews d \<and> num_critic_reviews d' = num_critic_reviews d \<and>
     plot_long d' = plot_long d"
  by (auto simp: set_title_def bindE_eq_Inr)

lemma set_MPAA_frame:
  "set_MPAA j d = Inr d' \<Longrightarrow>
     tconst d' = tconst d \<and> metacritic d' = metacritic d \<and>
     num_user_reviews d' = num_user_reviews d \<and> num_critic_reviews d' = num_critic_reviews d \<and>
     plot_long d' = plot_long d"
  by (auto simp: set_MPAA_def bindE_eq_Inr split: if_splits)

lemma set_poster_url_frame:
  "set_poster_url j d = Inr d' \<Longrightarrow>
     tconst d' = tconst d \<and> MPAA d' = MPAA d \<and> metacritic d' = metacritic d \<and>
     num_user_reviews d' = num_user_reviews d \<and> num_critic_reviews d' = num_critic_reviews d \<and>
     plot_long d' = plot_long d"
  by (auto simp: set_poster_url_def bindE_eq_Inr)

lemma set_release_year_frame:
  "set_release_year soup d = Inr d' \<Longrightarrow>
     tconst d' = tconst d \<and> MPAA d' = MPAA d \<and> metacritic d' = metacritic d \<and>
     num_user_reviews d' = num_user_reviews d \<and> num_critic_reviews d' = num_critic_reviews d \<and>
     plot_long d' = plot_long d"
  by (auto simp: set_release_year_def bindE_eq_Inr)

lemma set_runtime_frame:
  "set_runtime soup d = Inr d' \<Longrightarrow>
     tconst d' = tconst d \<and> MPAA d' = MPAA d \<and> metacritic d' = metacritic d \<and>
     num_user_reviews d' = num_user_reviews d \<and> num_critic_reviews d' = num_critic_reviews d \<and>
     plot_long d' = plot_long d"
  by (auto simp: set_runtime_def bindE_eq_Inr)

lemma set_release_date_frame:
  "set_release_date soup d = Inr d' \<Longrightarrow>
     tconst d' = tconst d \<and> MPAA d' = MPAA d \<and> metacritic d' = metacritic d \<and>
     num_user_reviews d' = num_user_reviews d \<and> num_critic_reviews d' = num_critic_reviews d \<and>
     plot_long d' = plot_long d"
  by (auto simp: set_release_date_def bindE_eq_Inr split: if_splits)

lemma set_genre_frame:
  "set_genre j d = Inr d' \<Longrightarrow>
     tconst d' = tconst d \<and> MPAA d' = MPAA d \<and> metacritic d' = metacritic d \<and>
     num_user_reviews d' = num_user_reviews d \<and> num_critic_reviews d' = num_critic_reviews d \<and>
     plot_long d' = plot_long d"
  by (auto simp: set_genre_def bindE_eq_Inr)

lemma set_imdb_rating_frame:
  "set_imdb_rating E j d = Inr d' \<Longrightarrow>
     tconst d' = tconst d \<and> MPAA d' = MPAA d \<and> metacritic d' = metacritic d \<and>
     num_user_reviews d' = num_user_reviews d \<and> num_critic_reviews d' = num_critic_reviews d \<and>
     plot_long d' = plot_long d"
  by (auto simp: set_imdb_rating_def bindE_eq_Inr)

lemma set_num_imdb_votes_frame:
  "set_num_imdb_votes j d = Inr d' \<Longrightarrow>
     tconst d' = tconst d \<and> MPAA d' = MPAA d \<and> metacritic d' = metacritic d \<and>
     num_user_reviews d' = num_user_reviews d \<and> num_critic_reviews d' = num_critic_reviews d \<and>
     plot_long d' = plot_long d"
  by (auto simp: set_num_imdb_votes_def bindE_eq_Inr)

lemma set_metacritic_frame:
  "set_metacritic soup d = Inr d' \<Longrightarrow>
     tconst d' = tconst d \<and> MPAA d' = MPAA d \<and>
     num_user_reviews d' = num_user_reviews d \<and> num_critic_reviews d' = num_critic_reviews d \<and>
     plot_long d' = plot_long d"
  by (auto simp: set_metacritic_def bindE_eq_Inr split: if_splits)

lemma set_reviews_frame:
  "set_reviews soup d = Inr d' \<Longrightarrow>
     tconst d' = tconst d \<and> MPAA d' = MPAA d \<and> metacritic d' = metacritic d \<and>
     plot_long d' = plot_long d"
  by (auto simp: set_reviews_def set_num_critic_reviews_def set_num_user_reviews_def
      Let_def bindE_eq_Inr split: if_splits)

lemma set_plot_short_frame:
  "set_plot_short soup d = Inr d' \<Longrightarrow>
     tconst d' = tconst d \<and> MPAA d' = MPAA d \<and> metacritic d' = metacritic d \<and>
     num_user_reviews d' = num_user_reviews d \<and> num_critic_reviews d' = num_critic_reviews d \<and>
     plot_long d' = plot_long d"
  by (auto simp: set_plot_short_def bindE_eq_Inr split: if_splits)

lemma set_plot_long_frame:
  "set_plot_long soup d = Inr d' \<Longrightarrow>
     tconst d' = tconst d \<and> MPAA d' = MPAA d \<and> metacritic d' = metacritic d \<and>
     num_user_reviews d' = num_user_reviews d \<and> num_critic_reviews d' = num_critic_reviews d \<and>
     plot_short d' = plot_short d"
  by (auto simp: set_plot_long_def bindE_eq_Inr split: if_splits)

lemmas frames =
  set_title_frame set_MPAA_frame set_poster_url_frame set_release_year_frame set_runtime_frame
  set_release_date_frame set_genre_frame set_imdb_rating_frame set_num_imdb_votes_frame
  set_metacritic_frame set_reviews_frame set_plot_short_frame set_plot_long_frame

text \<open>
  The dictionary a run returns, field by field: the key is the argument, and each of the
  fields below is what its own statement made of the initial empty string.
\<close>

lemma scrape_soup_tconst:
  assumes "scrape_soup E imdb_id soup = Inr r"
  shows "tconst r = imdb_id"
  using scrape_soup_statements [OF assms]
  by (auto dest!: frames simp: initial_info_def)

lemma scrape_soup_MPAA:
  assumes "scrape_soup E imdb_id soup = Inr r"
  shows "\<exists>json_dict d d'. load_json_dict E soup = Inr json_dict \<and>
           set_MPAA json_dict d = Inr d' \<and> MPAA d = PStr '''' \<and> MPAA r = MPAA d'"
proof -
  from scrape_soup_statements [OF assms]
  obtain json_dict d1 d2 d3 d4 d5 d6 d7 d8 d9 d10 d11 d12 where
    l: "load_json_dict E soup = Inr json_dict" and
    s1: "set_title json_dict (initial_info imdb_id) = Inr d1" and
    s2: "set_MPAA json_dict d1 = Inr d2" and
    rest: "set_poster_url json_dict d2 = Inr d3"
      "set_release_year soup d3 = Inr d4"
      "set_runtime soup d4 = Inr d5"
      "set_release_date soup d5 = Inr d6"
      "set_genre json_dict d6 = Inr d7"
      "set_imdb_rating E json_dict d7 = Inr d8"
      "set_num_imdb_votes json_dict d8 = Inr d9"
      "set_metacritic soup d9 = Inr d10"
      "set_reviews soup d10 = Inr d11"
      "set_plot_short soup d11 = Inr d12"
      "set_plot_long soup d12 = Inr r"
    by blast
  have "MPAA d1 = PStr ''''"
    using s1 by (auto dest!: frames simp: initial_info_def)
  moreover have "MPAA r = MPAA d2"
    using rest by (auto dest!: frames)
  ultimately show ?thesis using l s2 by blast
qed

lemma scrape_soup_metacritic:
  assumes "scrape_soup E imdb_id soup = Inr r"
  shows "\<exists>d d'. set_metacritic soup d = Inr d' \<and> metacritic d = PStr '''' \<and>
           metacritic r = metacritic d'"
proof -
  from scrape_soup_statements [OF assms]
  obtain json_dict d1 d2 d3 d4 d5 d6 d7 d8 d9 d10 d11 d12 where
    before: "set_title json_dict (initial_info imdb_id) = Inr d1"
      "set_MPAA json_dict d1 = Inr d2"
      "set_poster_url json_dict d2 = Inr d3"
      "set_release_year soup d3 = Inr d4"
      "set_runtime soup d4 = Inr d5"
      "set_release_date soup d5 = Inr d6"
      "set_genre json_dict d6 = Inr d7"
      "set_imdb_rating E json_dict d7 = Inr d8"
      "set_num_imdb_votes json_dict d8 = Inr d9" and
    s: "set_metacritic soup d9 = Inr d10" and
    after: "set_reviews soup d10 = Inr d11"
      "set_plot_short soup d11 = Inr d12"
      "set_plot_long soup d12 = Inr r"
    by blast
  have "metacritic d9 = PStr ''''"
    using before by (auto dest!: frames simp: initial_info_def)
  moreover have "metacritic r = metacritic d10"
    using after by (auto dest!: frames)
  ultimately show ?thesis using s by blast
qed

lemma scrape_soup_reviews:
  assumes "scrape_soup E imdb_id soup = Inr r"
  shows "\<exists>d d'. set_reviews soup d = Inr d' \<and>
           num_user_reviews d = PStr '''' \<and> num_critic_reviews d = PStr '''' \<and>
           num_user_reviews r = num_user_reviews d' \<and>
           num_critic_reviews r = num_critic_reviews d'"
proof -
  from scrape_soup_statements [OF assms]
  obtain json_dict d1 d2 d3 d4 d5 d6 d7 d8 d9 d10 d11 d12 where
    before: "set_title json_dict (initial_info imdb_id) = Inr d1"
      "set_MPAA json_dict d1 = Inr d2"
      "set_poster_url json_dict d2 = Inr d3"
      "set_release_year soup d3 = Inr d4"
      "set_runtime soup d4 = Inr d5"
      "set_release_date soup d5 = Inr d6"
      "set_genre json_dict d6 = Inr d7"
      "set_imdb_rating E json_dict d7 = Inr d8"
      "set_num_imdb_votes json_dict d8 = Inr d9"
      "set_metacritic soup d9 = Inr d10" and
    s: "set_reviews soup d10 = Inr d11" and
    after: "set_plot_short soup d11 = Inr d12"
      "set_plot_long soup d12 = Inr r"
    by blast
  have "num_user_reviews d10 = PStr '''' \<and> num_critic_reviews d10 = PStr ''''"
    using before by (auto dest!: frames simp: initial_info_def)
  moreover have "num_user_reviews r = num_user_reviews d11 \<and>
      num_critic_reviews r = num_critic_reviews d11"
    using after by (auto dest!: frames)
  ultimately show ?thesis using s by blast
qed

lemma scrape_soup_plot_short:
  assumes "scrape_soup E imdb_id soup = Inr r"
  shows "\<exists>d d'. set_plot_short soup d = Inr d' \<and> plot_short r = plot_short d'"
proof -
  from scrape_soup_statements [OF assms]
  obtain d11 d12 where
    s: "set_plot_short soup d11 = Inr d12" and after: "set_plot_long soup d12 = Inr r"
    by blast
  have "plot_short r = plot_short d12"
    using after by (auto dest!: frames)
  then show ?thesis using s by blast
qed

lemma scrape_soup_plot_long:
  assumes "scrape_soup E imdb_id soup = Inr r"
  shows "\<exists>d. set_plot_long soup d = Inr r \<and> plot_long d = PStr ''''"
proof -
  from scrape_soup_statements [OF assms]
  obtain json_dict d1 d2 d3 d4 d5 d6 d7 d8 d9 d10 d11 d12 where
    before: "set_title json_dict (initial_info imdb_id) = Inr d1"
      "set_MPAA json_dict d1 = Inr d2"
      "set_poster_url json_dict d2 = Inr d3"
      "set_release_year soup d3 = Inr d4"
      "set_runtime soup d4 = Inr d5"
      "set_release_date soup d5 = Inr d6"
      "set_genre json_dict d6 = Inr d7"
      "set_imdb_rating E json_dict d7 = Inr d8"
      "set_num_imdb_votes json_dict d8 = Inr d9"
      "set_metacritic soup d9 = Inr d10"
      "set_reviews soup d10 = Inr d11"
      "set_plot_short soup d11 = Inr d12" and
    s: "set_plot_long soup d12 = Inr r"
    by blast
  have "plot_long d12 = PStr ''''"
    using before by (auto dest!: frames simp: initial_info_def)
  then show ?thesis using s by blast
qed

text \<open>The lookups that must succeed for a run to return.\<close>

lemma scrape_soup_needs:
  assumes "scrape_soup E imdb_id soup = Inr r"
  shows "\<exists>json_dict. load_json_dict E soup = Inr json_dict \<and>
           (\<exists>d d'. set_release_year soup d = Inr d') \<and>
           (\<exists>d d'. set_runtime soup d = Inr d') \<and>
           (\<exists>d d'. set_release_date soup d = Inr d') \<and>
           (\<exists>d d'. set_imdb_rating E json_dict d = Inr d') \<and>
           (\<exists>d d'. set_num_imdb_votes json_dict d = Inr d') \<and>
           (\<exists>d d'. set_plot_short soup d = Inr d') \<and>
           (\<exists>d d'. set_plot_long soup d = Inr d')"
  using scrape_soup_statements [OF assms] by blast

lemma no_record_is_error: "(\<forall>r. x \<noteq> Inr r) \<Longrightarrow> \<exists>e. x = Inl e"
  by (cases x) auto

section \<open>Lookups that are absent\<close>

lemma set_release_year_absent:
  "find_tag ''span'' [(''id'', ''titleYear'')] soup = None \<Longrightarrow>
     set_release_year soup d = Inl AttributeError"
  by (simp add: set_release_year_def child_tag_def)

lemma set_runtime_absent:
  "find_tag ''time'' [] soup = None \<Longrightarrow> set_runtime soup d = Inl TypeError"
  by (simp add: set_runtime_def)

lemma set_release_date_absent:
  "find_tag ''div'' [(''class'', ''title_wrapper'')] soup = None \<Longrightarrow>
     set_release_date soup d = Inl AttributeError"
  by (simp add: set_release_date_def get_findAll_def)

lemma set_plot_short_absent:
  "find_tag ''div'' [(''class'', ''summary_text'')] soup = None \<Longrightarrow>
     set_plot_short soup d = Inl AttributeError"
  by (simp add: set_plot_short_def get_text_def)

lemma set_plot_long_absent:
  "find_tag ''div'' [(''id'', ''titleStoryLine'')] soup = None \<Longrightarrow>
     set_plot_long soup d = Inl AttributeError"
  by (simp add: set_plot_long_def story_line_p_def child_tag_def)

lemma set_metacritic_absent:
  "find_tag ''div'' [(''class'', ''metacriticScore'')] soup = None \<Longrightarrow>
     set_metacritic soup d = Inr d"
  by (simp add: set_metacritic_def)

lemma set_reviews_absent: "num_review_list soup = [] \<Longrightarrow> set_reviews soup d = Inr d"
  by (simp add: set_reviews_def)

lemma set_plot_long_no_paragraph: "story_line_p soup = Inr None \<Longrightarrow> set_plot_long soup d = Inr d"
  by (simp add: set_plot_long_def)

lemma set_MPAA_absent: "py_in ''contentRating'' json_dict = Inr False \<Longrightarrow> set_MPAA json_dict d = Inr d"
  by (simp add: set_MPAA_def)

lemma set_imdb_rating_absent:
  "getitem json_dict ''aggregateRating'' = Inl KeyError \<or>
   (\<exists>agg. getitem json_dict ''aggregateRating'' = Inr agg \<and>
      getitem agg ''ratingValue'' = Inl KeyError) \<Longrightarrow>
     set_imdb_rating E json_dict d = Inl KeyError"
  by (auto simp: set_imdb_rating_def)

lemma set_num_imdb_votes_absent:
  "getitem json_dict ''aggregateRating'' = Inr agg \<Longrightarrow>
   getitem agg ''ratingCount'' = Inl KeyError \<Longrightarrow>
     set_num_imdb_votes json_dict d = Inl KeyError"
  by (simp add: set_num_imdb_votes_def)

lemma scrape_soup_markup_needed:
  assumes "find_tag ''span'' [(''id'', ''titleYear'')] soup = None \<or>
           find_tag ''time'' [] soup = None \<or>
           find_tag ''div'' [(''class'', ''title_wrapper'')] soup = None \<or>
           find_tag ''div'' [(''class'', ''summary_text'')] soup = None \<or>
           find_tag ''div'' [(''id'', ''titleStoryLine'')] soup = None"
  shows "\<exists>e. scrape_soup E imdb_id soup = Inl e"
proof (rule no_record_is_error, rule allI, rule notI)
  fix r
  assume "scrape_soup E imdb_id soup = Inr r"
  from scrape_soup_needs [OF this] assms show False
    by (auto simp: set_release_year_absent set_runtime_absent set_release_date_absent
        set_plot_short_absent set_plot_long_absent)
qed

lemma scrape_soup_rating_needed:
  assumes "load_json_dict E soup = Inr json_dict"
    and "getitem json_dict ''aggregateRating'' = Inl KeyError \<or>
         (\<exists>agg. getitem json_dict ''aggregateRating'' = Inr agg \<and>
            (getitem agg ''ratingValue'' = Inl KeyError \<or>
             getitem agg ''ratingCount'' = Inl KeyError))"
  shows "\<exists>e. scrape_soup E imdb_id soup = Inl e"
proof (rule no_record_is_error, rule allI, rule notI)
  fix r
  assume "scrape_soup E imdb_id soup = Inr r"
  from scrape_soup_needs [OF this] assms(1) obtain d d' e e' where
    "set_imdb_rating E json_dict d = Inr d'" "set_num_imdb_votes json_dict e = Inr e'"
    by auto
  with assms(2) show False
    using set_imdb_rating_absent [of json_dict E d]
      set_num_imdb_votes_absent [of json_dict _ e]
    by auto
qed

section \<open>The fixtures, evaluated\<close>

lemma jurassic_scrape:
  "fst (imdb_scrape (site jurassic_page jurassic_json) ''tt0107290'' True empty_world)
     = Inr jurassic_info"
  by code_simp

lemma jurassic_fetch:
  "http_get (site page payload) (''https://www.imdb.com/title/'' @ ''tt0107290'')
     = Inr ''<!DOCTYPE html>''"
  by (simp add: site_def)

lemma jurassic_parse: "html_parse (site page payload) body = page"
  by (simp add: site_def)

section \<open>The key of the record\<close>

text \<open>
  Claim C5. Whenever \<^verbatim>\<open>imdb_scrape\<close> returns a dictionary, which it does only after the
  payload of the fetched page was found and decoded, the \<^verbatim>\<open>tconst\<close> of that dictionary is
  the key it was called with.
\<close>

theorem tconst_is_key:
  assumes "imdb_scrape E imdb_id save_image w = (Inr r, w')"
  shows "tconst r = imdb_id"
  using imdb_scrape_returns [OF assms] scrape_soup_tconst by blast

theorem tconst_is_key_witness:
  "fst (imdb_scrape (site jurassic_page jurassic_json) ''tt0107290'' True empty_world)
     = Inr jurassic_info \<and>
   tconst jurassic_info = ''tt0107290''"
proof -
  have "imdb_scrape (site jurassic_page jurassic_json) ''tt0107290'' True empty_world
      = (Inr jurassic_info,
         snd (imdb_scrape (site jurassic_page jurassic_json) ''tt0107290'' True empty_world))"
    using jurassic_scrape by (metis prod.collapse)
  from tconst_is_key [OF this] jurassic_scrape show ?thesis by simp
qed

section \<open>Markup that is missing\<close>

text \<open>
  Claim C1 says that inside the scraper a missing runtime, release date, critic score,
  review count or plot is caught, and that only the missing year is fatal. The sample page
  without its \<^verbatim>\<open>time\<close> element, payload and year in place, refutes it: \<^verbatim>\<open>None['datetime']\<close>
  raises \<^verbatim>\<open>TypeError\<close>, nothing catches it, and no dictionary is returned, where the page
  with the element gives the full record.
\<close>

theorem missing_runtime_is_fatal:
  "load_json_dict (site page_without_time jurassic_json) page_without_time = Inr jurassic_json \<and>
   find_tag ''span'' [(''id'', ''titleYear'')] page_without_time \<noteq> None \<and>
   find_tag ''time'' [] page_without_time = None \<and>
   fst (imdb_scrape (site page_without_time jurassic_json) ''tt0107290'' False empty_world)
     = Inl TypeError \<and>
   fst (imdb_scrape (site jurassic_page jurassic_json) ''tt0107290'' False empty_world)
     = Inr jurassic_info"
  by code_simp

text \<open>
  Claim C1, amended. \<^verbatim>\<open>imdb_scrape\<close> catches nothing. It tests for three absences, which
  then leave the field at its initial empty string and raise nothing: the critic-score
  container, the review bar, and the paragraph inside the story line. The year anchor,
  the \<^verbatim>\<open>time\<close> element, the title header, the short-plot container and the story-line
  container are used untested: when one of them is absent the call raises and returns
  no dictionary.
\<close>

theorem markup_absences:
  assumes "http_get E (''https://www.imdb.com/title/'' @ imdb_id) = Inr body"
    and "soup = html_parse E body"
  shows
    "(find_tag ''div'' [(''class'', ''metacriticScore'')] soup = None \<longrightarrow>
        set_metacritic soup d = Inr d \<and>
        (\<forall>r w'. imdb_scrape E imdb_id save_image w = (Inr r, w') \<longrightarrow> metacritic r = PStr '''')) \<and>
     (num_review_list soup = [] \<longrightarrow>
        set_reviews soup d = Inr d \<and>
        (\<forall>r w'. imdb_scrape E imdb_id save_image w = (Inr r, w') \<longrightarrow>
           num_user_reviews r = PStr '''' \<and> num_critic_reviews r = PStr '''')) \<and>
     (story_line_p soup = Inr None \<longrightarrow>
        set_plot_long soup d = Inr d \<and>
        (\<forall>r w'. imdb_scrape E imdb_id save_image w = (Inr r, w') \<longrightarrow> plot_long r = PStr '''')) \<and>
     (find_tag ''span'' [(''id'', ''titleYear'')] soup = None \<or>
      find_tag ''time'' [] soup = None \<or>
      find_tag ''div'' [(''class'', ''title_wrapper'')] soup = None \<or>
      find_tag ''div'' [(''class'', ''summary_text'')] soup = None \<or>
      find_tag ''div'' [(''id'', ''titleStoryLine'')] soup = None \<longrightarrow>
        (\<exists>e. fst (imdb_scrape E imdb_id save_image w) = Inl e))"
proof -
  have run: "scrape_soup E imdb_id soup = Inr r"
    if "imdb_scrape E imdb_id save_image w = (Inr r, w')" for r w'
    using imdb_scrape_returns [OF that] assms by auto
  have "metacritic r = PStr ''''"
    if "find_tag ''div'' [(''class'', ''metacriticScore'')] soup = None"
      and "imdb_scrape E imdb_id save_image w = (Inr r, w')" for r w'
    using scrape_soup_metacritic [OF run [OF that(2)]] that(1)
    by (auto simp: set_metacritic_absent)
  moreover have "num_user_reviews r = PStr '''' \<and> num_critic_reviews r = PStr ''''"
    if "num_review_list soup = []"
      and "imdb_scrape E imdb_id save_image w = (Inr r, w')" for r w'
    using scrape_soup_reviews [OF run [OF that(2)]] that(1)
    by (auto simp: set_reviews_absent)
  moreover have "plot_long r = PStr ''''"
    if "story_line_p soup = Inr None"
      and "imdb_scrape E imdb_id save_image w = (Inr r, w')" for r w'
    using scrape_soup_plot_long [OF run [OF that(2)]] that(1)
    by (auto simp: set_plot_long_no_paragraph)
  moreover have "\<exists>e. fst (imdb_scrape E imdb_id save_image w) = Inl e"
    if "find_tag ''span'' [(''id'', ''titleYear'')] soup = None \<or>
      find_tag ''time'' [] soup = None \<or>
      find_tag ''div'' [(''class'', ''title_wrapper'')] soup = None \<or>
      find_tag ''div'' [(''class'', ''summary_text'')] soup = None \<or>
      find_tag ''div'' [(''id'', ''titleStoryLine'')] soup = None"
  proof -
    from scrape_soup_markup_needed [OF that] obtain e where
      "scrape_soup E imdb_id soup = Inl e" by blast
    with assms imdb_scrape_raises show ?thesis by blast
  qed
  ultimately show ?thesis
    by (simp add: set_metacritic_absent set_reviews_absent set_plot_long_no_paragraph)
qed

lemma page_without_reviews_facts:
  "find_tag ''div'' [(''class'', ''metacriticScore'')] page_without_reviews = None \<and>
   num_review_list page_without_reviews = [] \<and>
   story_line_p page_without_paragraph = Inr None \<and>
   find_tag ''time'' [] page_without_time = None"
  by code_simp

lemma page_without_paragraph_scrape:
  "fst (imdb_scrape (site page_without_paragraph jurassic_json) ''tt0107290'' False empty_world)
     = Inr (jurassic_info\<lparr>plot_long := PStr ''''\<rparr>)"
  by code_simp

lemma page_without_reviews_scrape:
  "fst (imdb_scrape (site page_without_reviews jurassic_json) ''tt0107290'' False empty_world)
     = Inr (jurassic_info\<lparr>metacritic := PStr '''', num_user_reviews := PStr '''',
         num_critic_reviews := PStr ''''\<rparr>)"
  by code_simp

theorem markup_absences_witness:
  "(\<exists>r w'. imdb_scrape (site page_without_reviews jurassic_json) ''tt0107290'' False empty_world
       = (Inr r, w') \<and>
     metacritic r = PStr '''' \<and> num_user_reviews r = PStr '''' \<and>
     num_critic_reviews r = PStr '''') \<and>
   (\<exists>r w'. imdb_scrape (site page_without_paragraph jurassic_json) ''tt0107290'' False empty_world
       = (Inr r, w') \<and>
     plot_long r = PStr '''') \<and>
   (\<exists>e. fst (imdb_scrape (site page_without_time jurassic_json) ''tt0107290'' False empty_world)
      = Inl e)"
proof -
  from page_without_paragraph_scrape obtain r2 w2 where
    ret2: "imdb_scrape (site page_without_paragraph jurassic_json) ''tt0107290'' False empty_world
      = (Inr r2, w2)"
    by (metis prod.collapse)
  have long: "plot_long r2 = PStr ''''"
    using markup_absences [OF jurassic_fetch, of page_without_paragraph page_without_paragraph
        jurassic_json undefined False empty_world]
      page_without_reviews_facts ret2
    by (simp add: jurassic_parse)
  from page_without_reviews_scrape obtain r w' where
    ret: "imdb_scrape (site page_without_reviews jurassic_json) ''tt0107290'' False empty_world
      = (Inr r, w')"
    by (metis prod.collapse)
  have "metacritic r = PStr '''' \<and> num_user_reviews r = PStr '''' \<and>
      num_critic_reviews r = PStr ''''"
    using markup_absences [OF jurassic_fetch, of page_without_reviews page_without_reviews
        jurassic_json undefined False empty_world]
      page_without_reviews_facts ret
    by (simp add: jurassic_parse)
  moreover have "\<exists>e. fst (imdb_scrape (site page_without_time jurassic_json) ''tt0107290''
      False empty_world) = Inl e"
    using markup_absences [OF jurassic_fetch, of page_without_time page_without_time
        jurassic_json undefined False empty_world]
      page_without_reviews_facts
    by (simp add: jurassic_parse)
  ultimately show ?thesis using ret ret2 long by blast
qed

section \<open>Payload keys that are missing\<close>

text \<open>
  Claim C3 says that a decoded payload without \<^verbatim>\<open>contentRating\<close>, without
  \<^verbatim>\<open>ratingValue\<close> or without \<^verbatim>\<open>ratingCount\<close> leaves the field unset and raises nothing.
  The sample page with a payload that has no \<^verbatim>\<open>aggregateRating\<close> refutes it: the payload
  decodes, \<^verbatim>\<open>json_dict['aggregateRating']\<close> raises \<^verbatim>\<open>KeyError\<close>, and no dictionary is
  returned, where the payload with the rating block gives the full record.
\<close>

theorem missing_rating_is_fatal:
  "load_json_dict (site jurassic_page unrated_json) jurassic_page = Inr unrated_json \<and>
   getitem unrated_json ''aggregateRating'' = Inl KeyError \<and>
   fst (imdb_scrape (site jurassic_page unrated_json) ''tt0107290'' False empty_world)
     = Inl KeyError \<and>
   fst (imdb_scrape (site jurassic_page jurassic_json) ''tt0107290'' False empty_world)
     = Inr jurassic_info"
  by code_simp

text \<open>
  Claim C3, amended. Of the optional keys only \<^verbatim>\<open>contentRating\<close> is tested for: when it
  is absent the \<^verbatim>\<open>MPAA\<close> field stays at its initial empty string and nothing is raised. The
  rating block is read untested: a payload without \<^verbatim>\<open>aggregateRating\<close>, or whose
  \<^verbatim>\<open>aggregateRating\<close> lacks \<^verbatim>\<open>ratingValue\<close> or \<^verbatim>\<open>ratingCount\<close>, makes the call raise and return
  no dictionary.
\<close>

theorem payload_absences:
  assumes "http_get E (''https://www.imdb.com/title/'' @ imdb_id) = Inr body"
    and "load_json_dict E (html_parse E body) = Inr json_dict"
  shows
    "(py_in ''contentRating'' json_dict = Inr False \<longrightarrow>
        set_MPAA json_dict d = Inr d \<and>
        (\<forall>r w'. imdb_scrape E imdb_id save_image w = (Inr r, w') \<longrightarrow> MPAA r = PStr '''')) \<and>
     (getitem json_dict ''aggregateRating'' = Inl KeyError \<or>
      (\<exists>agg. getitem json_dict ''aggregateRating'' = Inr agg \<and>
         (getitem agg ''ratingValue'' = Inl KeyError \<or>
          getitem agg ''ratingCount'' = Inl KeyError)) \<longrightarrow>
        (\<exists>e. fst (imdb_scrape E imdb_id save_image w) = Inl e))"
proof -
  have "MPAA r = PStr ''''"
    if absent: "py_in ''contentRating'' json_dict = Inr False"
      and ret: "imdb_scrape E imdb_id save_image w = (Inr r, w')" for r w'
  proof -
    from imdb_scrape_returns [OF ret] assms(1)
    have "scrape_soup E imdb_id (html_parse E body) = Inr r" by auto
    from scrape_soup_MPAA [OF this] assms(2) absent show ?thesis
      by (auto simp: set_MPAA_absent)
  qed
  moreover have "\<exists>e. fst (imdb_scrape E imdb_id save_image w) = Inl e"
    if "getitem json_dict ''aggregateRating'' = Inl KeyError \<or>
      (\<exists>agg. getitem json_dict ''aggregateRating'' = Inr agg \<and>
         (getitem agg ''ratingValue'' = Inl KeyError \<or>
          getitem agg ''ratingCount'' = Inl KeyError))"
  proof -
    from scrape_soup_rating_needed [OF assms(2) that] obtain e where
      "scrape_soup E imdb_id (html_parse E body) = Inl e" by blast
    with assms(1) imdb_scrape_raises show ?thesis by blast
  qed
  ultimately show ?thesis
    by (simp add: set_MPAA_absent)
qed

lemma uncertified_facts:
  "load_json_dict (site jurassic_page uncertified_json) jurassic_page = Inr uncertified_json \<and>
   py_in ''contentRating'' uncertified_json = Inr False \<and>
   load_json_dict (site jurassic_page unrated_json) jurassic_page = Inr unrated_json \<and>
   getitem unrated_json ''aggregateRating'' = Inl KeyError"
  by code_simp

lemma uncertified_scrape:
  "fst (imdb_scrape (site jurassic_page uncertified_json) ''tt0107290'' False empty_world)
     = Inr (jurassic_info\<lparr>MPAA := PStr ''''\<rparr>)"
  by code_simp

theorem payload_absences_witness:
  "(\<exists>r w'. imdb_scrape (site jurassic_page uncertified_json) ''tt0107290'' False empty_world
       = (Inr r, w') \<and> MPAA r = PStr '''') \<and>
   (\<exists>e. fst (imdb_scrape (site jurassic_page unrated_json) ''tt0107290'' False empty_world)
      = Inl e)"
proof -
  from uncertified_scrape obtain r w' where
    ret: "imdb_scrape (site jurassic_page uncertified_json) ''tt0107290'' False empty_world
      = (Inr r, w')"
    by (metis prod.collapse)
  have "MPAA r = PStr ''''"
    using payload_absences [OF jurassic_fetch, of jurassic_page uncertified_json
        uncertified_json undefined False empty_world]
      uncertified_facts ret
    by (simp add: jurassic_parse)
  moreover have "\<exists>e. fst (imdb_scrape (site jurassic_page unrated_json) ''tt0107290''
      False empty_world) = Inl e"
    using payload_absences [OF jurassic_fetch, of jurassic_page unrated_json
        unrated_json undefined False empty_world]
      uncertified_facts
    by (simp add: jurassic_parse)
  ultimately show ?thesis using ret by blast
qed

section \<open>The review counts\<close>

lemma set_reviews_cases:
  "set_reviews soup d =
     (case num_review_list soup of
        [] \<Rightarrow> Inr d
      | bar # bars \<Rightarrow>
          (case findAll ''a'' [] bar of
             [] \<Rightarrow> Inr d
           | [user] \<Rightarrow>
               bindE (to_numeric (text_of user) ''int'') (\<lambda>u. Inr (d\<lparr>num_user_reviews := u\<rparr>))
           | user # critic # others \<Rightarrow>
               bindE (to_numeric (text_of critic) ''int'') (\<lambda>c.
               bindE (to_numeric (text_of user) ''int'') (\<lambda>u.
                 Inr (d\<lparr>num_critic_reviews := c, num_user_reviews := u\<rparr>)))))"
  by (auto simp: set_reviews_def set_num_critic_reviews_def set_num_user_reviews_def Let_def
      bindE_def split: list.splits sum.splits)

text \<open>
  Claim C6. Without a review bar the statement returns the dictionary as it was: both
  counts stay at the initial empty string and nothing is raised. With a bar, the links of
  the first bar decide: no link changes nothing; the text of the first link, coerced by
  \<^verbatim>\<open>to_numeric\<close>, is the user-review count; the text of the second link, when there is one,
  is the critic-review count, and without a second link that count stays unset. A link
  text without a digit makes the coercion raise \<^verbatim>\<open>ValueError\<close>.
\<close>

theorem review_counts:
  "set_reviews soup d =
     (case num_review_list soup of
        [] \<Rightarrow> Inr d
      | bar # bars \<Rightarrow>
          (case findAll ''a'' [] bar of
             [] \<Rightarrow> Inr d
           | [user] \<Rightarrow>
               bindE (to_numeric (text_of user) ''int'') (\<lambda>u. Inr (d\<lparr>num_user_reviews := u\<rparr>))
           | user # critic # others \<Rightarrow>
               bindE (to_numeric (text_of critic) ''int'') (\<lambda>c.
               bindE (to_numeric (text_of user) ''int'') (\<lambda>u.
                 Inr (d\<lparr>num_critic_reviews := c, num_user_reviews := u\<rparr>))))) \<and>
   (imdb_scrape E imdb_id save_image w = (Inr r, w') \<and>
    http_get E (''https://www.imdb.com/title/'' @ imdb_id) = Inr body \<and>
    soup = html_parse E body \<longrightarrow>
      (case num_review_list soup of
         [] \<Rightarrow> num_user_reviews r = PStr '''' \<and> num_critic_reviews r = PStr ''''
       | bar # bars \<Rightarrow>
           (case findAll ''a'' [] bar of
              [] \<Rightarrow> num_user_reviews r = PStr '''' \<and> num_critic_reviews r = PStr ''''
            | [user] \<Rightarrow>
                to_numeric (text_of user) ''int'' = Inr (num_user_reviews r) \<and>
                num_critic_reviews r = PStr ''''
            | user # critic # others \<Rightarrow>
                to_numeric (text_of user) ''int'' = Inr (num_user_reviews r) \<and>
                to_numeric (text_of critic) ''int'' = Inr (num_critic_reviews r))))"
proof (rule conjI [OF set_reviews_cases], rule impI)
  assume h: "imdb_scrape E imdb_id save_image w = (Inr r, w') \<and>
    http_get E (''https://www.imdb.com/title/'' @ imdb_id) = Inr body \<and>
    soup = html_parse E body"
  with imdb_scrape_returns [of E imdb_id save_image w r w']
  have "scrape_soup E imdb_id soup = Inr r" by auto
  from scrape_soup_reviews [OF this] obtain d0 d1 where
    s: "set_reviews soup d0 = Inr d1" and
    init: "num_user_reviews d0 = PStr ''''" "num_critic_reviews d0 = PStr ''''" and
    fin: "num_user_reviews r = num_user_reviews d1"
      "num_critic_reviews r = num_critic_reviews d1"
    by blast
  from s init fin show
    "case num_review_list soup of
       [] \<Rightarrow> num_user_reviews r = PStr '''' \<and> num_critic_reviews r = PStr ''''
     | bar # bars \<Rightarrow>
         (case findAll ''a'' [] bar of
            [] \<Rightarrow> num_user_reviews r = PStr '''' \<and> num_critic_reviews r = PStr ''''
          | [user] \<Rightarrow>
              to_numeric (text_of user) ''int'' = Inr (num_user_reviews r) \<and>
              num_critic_reviews r = PStr ''''
          | user # critic # others \<Rightarrow>
              to_numeric (text_of user) ''int'' = Inr (num_user_reviews r) \<and>
              to_numeric (text_of critic) ''int'' = Inr (num_critic_reviews r))"
    unfolding set_reviews_cases [of soup d0]
    by (auto simp: bindE_eq_Inr split: list.splits)
qed

lemma jurassic_review_links:
  "num_review_list jurassic_page = [review_bar_tag] \<and>
   findAll ''a'' [] review_bar_tag =
     [Tag ''a'' [] [(''href'', ''reviews'')] [Text ''1,085 user''],
      Tag ''a'' [] [(''href'', ''externalreviews'')] [Text ''355 critic'']]"
  by code_simp

theorem review_counts_witness:
  "\<exists>r w'. imdb_scrape (site jurassic_page jurassic_json) ''tt0107290'' True empty_world
       = (Inr r, w') \<and>
     to_numeric ''1,085 user'' ''int'' = Inr (num_user_reviews r) \<and>
     to_numeric ''355 critic'' ''int'' = Inr (num_critic_reviews r)"
proof -
  from jurassic_scrape obtain r w' where
    ret: "imdb_scrape (site jurassic_page jurassic_json) ''tt0107290'' True empty_world
      = (Inr r, w')"
    by (metis prod.collapse)
  have "to_numeric ''1,085 user'' ''int'' = Inr (num_user_reviews r) \<and>
     to_numeric ''355 critic'' ''int'' = Inr (num_critic_reviews r)"
    using review_counts [of jurassic_page undefined "site jurassic_page jurassic_json"
        "''tt0107290''" True empty_world r w' "''<!DOCTYPE html>''"]
      ret jurassic_fetch [of jurassic_page jurassic_json] jurassic_review_links
    by (simp add: jurassic_parse)
  with ret show ?thesis by blast
qed

section \<open>The short plot and its placeholder\<close>

lemma plot_short_value:
  assumes "imdb_scrape E imdb_id save_image w = (Inr r, w')"
    and "http_get E (''https://www.imdb.com/title/'' @ imdb_id) = Inr body"
    and "find_tag ''div'' [(''class'', ''summary_text'')] (html_parse E body) = Some container"
  shows "plot_short r =
           (if contains ''Add a Plot'' (strip (text_of container)) then PStr ''''
            else PStr (strip (text_of container)))"
proof -
  from imdb_scrape_returns [OF assms(1)] assms(2)
  have "scrape_soup E imdb_id (html_parse E body) = Inr r" by auto
  from scrape_soup_plot_short [OF this] assms(3) show ?thesis
    by (auto simp: set_plot_short_def get_text_def split: if_splits)
qed

lemma contains_append: "contains sub (pre @ sub @ post)"
proof (induction pre)
  case Nil
  have sw: "starts_with sub (sub @ post)"
    by (simp add: starts_with_def)
  show ?case
  proof (cases "sub @ post")
    case Nil
    then show ?thesis by simp
  next
    case (Cons c cs)
    with sw show ?thesis by simp
  qed
next
  case (Cons a pre)
  then show ?case by simp
qed

lemma contains_decompose: "contains sub s \<Longrightarrow> \<exists>pre post. s = pre @ sub @ post"
proof (induction s)
  case Nil
  then show ?case by simp
next
  case (Cons c cs)
  show ?case
  proof (cases "starts_with sub (c # cs)")
    case True
    then have "c # cs = [] @ sub @ drop (length sub) (c # cs)"
      unfolding starts_with_def by (metis append_Nil append_take_drop_id)
    then show ?thesis by blast
  next
    case False
    with Cons.prems have "contains sub cs" by simp
    from Cons.IH [OF this] obtain pre post where "cs = pre @ sub @ post" by blast
    then have "c # cs = (c # pre) @ sub @ post" by simp
    then show ?thesis by blast
  qed
qed

lemma dropWhile_keeps:
  assumes "sub \<noteq> []" and "\<not> P (hd sub)"
  shows "\<exists>pre'. dropWhile P (pre @ sub @ post) = pre' @ sub @ post"
proof (induction pre)
  case Nil
  from assms have "dropWhile P (sub @ post) = sub @ post"
    by (cases sub) auto
  then show ?case by (metis append_Nil)
next
  case (Cons a pre)
  then show ?case
    by (cases "P a") (auto intro: exI [of _ "a # pre"])
qed

lemma strip_keeps:
  assumes "sub \<noteq> []" and "\<not> is_space (hd sub)" and "\<not> is_space (last sub)"
  shows "\<exists>pre' post'. strip (pre @ sub @ post) = pre' @ sub @ post'"
proof -
  from dropWhile_keeps [of sub is_space pre post, OF assms(1,2)] obtain pre' where
    a: "dropWhile is_space (pre @ sub @ post) = pre' @ sub @ post" by blast
  have "rev sub \<noteq> []" "\<not> is_space (hd (rev sub))"
    using assms(1,3) by (simp_all add: hd_rev)
  from dropWhile_keeps [of "rev sub" is_space "rev post" "rev pre'", OF this] obtain q where
    "dropWhile is_space (rev post @ rev sub @ rev pre') = q @ rev sub @ rev pre'" by blast
  then have "strip (pre @ sub @ post) = pre' @ sub @ rev q"
    by (simp add: strip_def a)
  then show ?thesis by blast
qed

lemma contains_strip:
  assumes "contains ''Add a Plot'' s"
  shows "contains ''Add a Plot'' (strip s)"
proof -
  from contains_decompose [OF assms] obtain pre post where
    "s = pre @ ''Add a Plot'' @ post" by blast
  moreover have "\<exists>pre' post'. strip (pre @ ''Add a Plot'' @ post) = pre' @ ''Add a Plot'' @ post'"
    by (rule strip_keeps) (simp_all add: is_space_def)
  ultimately obtain pre' post' where "strip s = pre' @ ''Add a Plot'' @ post'" by auto
  then show ?thesis by (metis contains_append)
qed

text \<open>
  Claim C9. When the stripped text of the short-plot container is exactly the
  placeholder \<^verbatim>\<open>Add a Plot\<close>, the dictionary returned has the empty string as its short
  plot.
\<close>

theorem placeholder_plot_is_empty:
  assumes "imdb_scrape E imdb_id save_image w = (Inr r, w')"
    and "http_get E (''https://www.imdb.com/title/'' @ imdb_id) = Inr body"
    and "find_tag ''div'' [(''class'', ''summary_text'')] (html_parse E body) = Some container"
    and "strip (text_of container) = ''Add a Plot''"
  shows "plot_short r = PStr ''''"
  using plot_short_value [OF assms(1-3)] assms(4)
  by (simp add: starts_with_def)

lemma placeholder_page_scrape:
  "fst (imdb_scrape (site (page_with_plot ''   Add a Plot   '') jurassic_json) ''tt0107290''
       False empty_world)
     = Inr (jurassic_info\<lparr>plot_short := PStr ''''\<rparr>)"
  by code_simp

lemma placeholder_page_summary:
  "find_tag ''div'' [(''class'', ''summary_text'')] (page_with_plot ''   Add a Plot   '')
     = Some (Tag ''div'' [''summary_text''] [] [Text ''   Add a Plot   ''])"
  by code_simp

lemma placeholder_page_text:
  "strip (text_of (Tag ''div'' [''summary_text''] [] [Text ''   Add a Plot   '']))
     = ''Add a Plot''"
  by code_simp

theorem placeholder_plot_is_empty_witness:
  "\<exists>r w'. imdb_scrape (site (page_with_plot ''   Add a Plot   '') jurassic_json) ''tt0107290''
       False empty_world = (Inr r, w') \<and>
     plot_short r = PStr ''''"
proof -
  from placeholder_page_scrape obtain r w' where
    ret: "imdb_scrape (site (page_with_plot ''   Add a Plot   '') jurassic_json) ''tt0107290''
       False empty_world = (Inr r, w')"
    by (metis prod.collapse)
  have "plot_short r = PStr ''''"
    by (rule placeholder_plot_is_empty [OF ret jurassic_fetch _ placeholder_page_text])
      (simp only: jurassic_parse placeholder_page_summary)
  with ret show ?thesis by blast
qed

text \<open>
  Claim C10. The test is \<^verbatim>\<open>'Add a Plot' in ...\<close>, a substring test: whenever the text of
  the short-plot container has \<^verbatim>\<open>Add a Plot\<close> anywhere in it, inside a real plot too, the
  dictionary returned has the empty string as its short plot.
\<close>

theorem placeholder_inside_plot:
  assumes "imdb_scrape E imdb_id save_image w = (Inr r, w')"
    and "http_get E (''https://www.imdb.com/title/'' @ imdb_id) = Inr body"
    and "find_tag ''div'' [(''class'', ''summary_text'')] (html_parse E body) = Some container"
    and "contains ''Add a Plot'' (text_of container)"
  shows "plot_short r = PStr ''''"
  using plot_short_value [OF assms(1-3)] contains_strip [OF assms(4)]
  by simp

lemma twist_page_scrape:
  "fst (imdb_scrape (site (page_with_plot '' The writers Add a Plot twist to the park. '')
       jurassic_json) ''tt0107290'' False empty_world)
     = Inr (jurassic_info\<lparr>plot_short := PStr ''''\<rparr>)"
  by code_simp

lemma twist_page_summary:
  "find_tag ''div'' [(''class'', ''summary_text'')]
       (page_with_plot '' The writers Add a Plot twist to the park. '')
     = Some (Tag ''div'' [''summary_text''] []
         [Text '' The writers Add a Plot twist to the park. ''])"
  by code_simp

lemma twist_page_text:
  "contains ''Add a Plot'' (text_of (Tag ''div'' [''summary_text''] []
         [Text '' The writers Add a Plot twist to the park. '']))"
  by code_simp

theorem placeholder_inside_plot_witness:
  "\<exists>r w'. imdb_scrape (site (page_with_plot '' The writers Add a Plot twist to the park. '')
       jurassic_json) ''tt0107290'' False empty_world = (Inr r, w') \<and>
     plot_short r = PStr ''''"
proof -
  from twist_page_scrape obtain r w' where
    ret: "imdb_scrape (site (page_with_plot '' The writers Add a Plot twist to the park. '')
       jurassic_json) ''tt0107290'' False empty_world = (Inr r, w')"
    by (metis prod.collapse)
  have "plot_short r = PStr ''''"
    by (rule placeholder_inside_plot [OF ret jurassic_fetch _ twist_page_text])
      (simp only: jurassic_parse twist_page_summary)
  with ret show ?thesis by blast
qed

section \<open>Saving the poster twice\<close>

lemma split_last_from_plain: "sep \<notin> set s \<Longrightarrow> split_last_from sep acc s = acc @ s"
  by (induction s arbitrary: acc) auto

lemma split_last_from_suffix:
  "sep \<notin> set ext \<Longrightarrow> split_last_from sep acc (pre @ sep # ext) = ext"
  by (induction pre arbitrary: acc) (auto simp: split_last_from_plain)

lemma split_last_suffix: "sep \<notin> set ext \<Longrightarrow> split_last sep (pre @ sep # ext) = ext"
  by (simp add: split_last_def split_last_from_suffix)

text \<open>
  Claim C7. Take a poster URL that ends in a dot and an extension, no file yet at
  \<^verbatim>\<open>posters/<key>.<ext>\<close>, and a download, decoding and save that succeed. The first call
  of \<^verbatim>\<open>savePoster\<close> sends one request, writes the file at that path and returns \<^verbatim>\<open>True\<close>;
  the second call, in the world the first one left, returns \<^verbatim>\<open>False\<close> and leaves the world
  as it is: no request, no write.
\<close>

theorem savePoster_twice:
  assumes "img_url = pre @ ''.'' @ ext" and "CHR ''.'' \<notin> set ext"
    and "files w (''posters/'' @ imdb_id @ ''.'' @ ext) = None"
    and "http_get E img_url = Inr content"
    and "image_open E content = Inr img"
    and "image_save E img (''posters/'' @ imdb_id @ ''.'' @ ext) = Inr written"
  shows "\<exists>w1. savePoster E imdb_id (PStr img_url) w = (Inr True, w1) \<and>
           files w1 (''posters/'' @ imdb_id @ ''.'' @ ext) = Some written \<and>
           requests w1 = requests w @ [img_url] \<and>
           savePoster E imdb_id (PStr img_url) w1 = (Inr False, w1)"
proof -
  have ext: "split_last CHR ''.'' img_url = ext"
    using assms(1,2) split_last_suffix [of "CHR ''.''" ext pre] by simp
  show ?thesis
    using assms(3-6) by (simp add: ext poster_path_def)
qed

theorem savePoster_twice_witness:
  "\<exists>w1. savePoster (site jurassic_page jurassic_json) ''tt0107290''
           (PStr ''https://m.media-amazon.com/images/M/poster.jpg'') empty_world = (Inr True, w1) \<and>
     files w1 ''posters/tt0107290.jpg'' = Some ''JFIF'' \<and>
     requests w1 = [''https://m.media-amazon.com/images/M/poster.jpg''] \<and>
     savePoster (site jurassic_page jurassic_json) ''tt0107290''
           (PStr ''https://m.media-amazon.com/images/M/poster.jpg'') w1 = (Inr False, w1)"
  using savePoster_twice [of "''https://m.media-amazon.com/images/M/poster.jpg''"
      "''https://m.media-amazon.com/images/M/poster''" "''jpg''" empty_world "''tt0107290''"
      "site jurassic_page jurassic_json" "''JFIF''" "''pixels''" "''JFIF''"]
  by (simp add: site_def empty_world_def)

section \<open>The batch loop and its failures\<close>

lemma tconst_of_call:
  "imdb_scrape E imdb_id save_image w = (Inr r, w') \<Longrightarrow> tconst r = imdb_id"
  using imdb_scrape_returns scrape_soup_tconst by blast

lemma scrape_loop_append:
  "scrape_loop E (pre @ post) bw = scrape_loop E post (scrape_loop E pre bw)"
  by (induction pre arbitrary: bw) auto

lemma attempts_keys: "map fst (attempts E keys w) = keys"
  by (induction keys arbitrary: w) auto

lemma scraped_filter:
  assumes "\<forall>key r. (key, Inr r) \<in> set xs \<longrightarrow> tconst r = key"
  shows "map tconst (scraped xs) = map fst (filter (\<lambda>a. \<not> isl (snd a)) xs)"
  using assms
proof (induction xs rule: scraped.induct)
  case 1
  show ?case by simp
next
  case (2 key info rest)
  from "2.prems" have "tconst info = key" by simp
  moreover from "2.prems" have "\<forall>k r. (k, Inr r) \<in> set rest \<longrightarrow> tconst r = k" by simp
  ultimately show ?case using "2.IH" by simp
next
  case (3 key e rest)
  from "3.prems" have "\<forall>k r. (k, Inr r) \<in> set rest \<longrightarrow> tconst r = k" by simp
  then show ?case using "3.IH" by simp
qed

lemma failed_filter: "failed xs = map fst (filter (\<lambda>a. isl (snd a)) xs)"
  by (induction xs rule: failed.induct) auto

lemma attempts_tconst: "(key, Inr r) \<in> set (attempts E keys w) \<Longrightarrow> tconst r = key"
proof (induction keys arbitrary: w)
  case Nil
  then show ?case by simp
next
  case (Cons k keys)
  have "tconst r = k" if "fst (imdb_scrape E k True w) = Inr r"
    using tconst_of_call [of E k True w r "snd (imdb_scrape E k True w)"] that
    by (metis prod.collapse)
  with Cons show ?case by auto
qed

lemma scrape_loop_attempts:
  "scrape_loop E keys (b, w) = (b', w') \<Longrightarrow>
     annual_movie_list b' = annual_movie_list b @ scraped (attempts E keys w) \<and>
     failed_list b' = failed_list b @ failed (attempts E keys w) \<and>
     fails b' = fails b + length (failed (attempts E keys w))"
proof (induction keys arbitrary: b w)
  case Nil
  then show ?case by simp
next
  case (Cons key keys)
  obtain out w1 where step: "imdb_scrape E key True w = (out, w1)"
    by (cases "imdb_scrape E key True w")
  show ?case
  proof (cases out)
    case (Inl e)
    with step Cons.prems have
      "scrape_loop E keys (b\<lparr>failed_list := failed_list b @ [key], fails := fails b + 1\<rparr>, w1)
         = (b', w')"
      by (simp add: loop_body_def)
    from Cons.IH [OF this] step Inl show ?thesis by simp
  next
    case (Inr info)
    with step Cons.prems have
      "scrape_loop E keys (b\<lparr>annual_movie_list := annual_movie_list b @ [info]\<rparr>, w1)
         = (b', w')"
      by (simp add: loop_body_def)
    from Cons.IH [OF this] step Inr show ?thesis by simp
  qed
qed

section \<open>The genre column\<close>

lemma foldl_append_concat:
  "foldl (\<lambda>result element. result @ f element) acc xs = acc @ concat (map f xs)"
  by (induction xs arbitrary: acc) auto

text \<open>
  Claim C4 says that the genre field of every row of the table file is the genres joined
  without a separator. The notebook never calls \<^verbatim>\<open>concatenate_list_data\<close>: the row of the
  sample record holds the list as \<^verbatim>\<open>str\<close> writes it, brackets, quotes and commas included.
\<close>

theorem genre_field_is_list_text:
  "genre jurassic_info = PList (map PStr jurassic_genres) \<and>
   concat jurassic_genres = ''ActionAdventureSci-FiThriller'' \<and>
   genre_field (site jurassic_page jurassic_json) jurassic_info
     = csv_quote ''['Action', 'Adventure', 'Sci-Fi', 'Thriller']'' \<and>
   genre_field (site jurassic_page jurassic_json) jurassic_info
     \<noteq> csv_quote (concat jurassic_genres) \<and>
   genre_field (site jurassic_page jurassic_json) jurassic_info \<noteq> concat jurassic_genres"
  by code_simp

text \<open>
  Claim C4, amended. \<^verbatim>\<open>concatenate_list_data\<close> returns the \<^verbatim>\<open>str\<close> of the elements of its
  list, in their order, with nothing between them; on a list of strings that is the
  strings concatenated. The genre field of a row of the table file is not made by it: for
  a record whose genre is a list, the field is the quoted \<^verbatim>\<open>str\<close> of that list.
\<close>

theorem concatenate_list_data_joins:
  "concatenate_list_data E (PList xs) = Inr (concat (map (py_str E) xs)) \<and>
   concatenate_list_data E (PList (map PStr gs)) = Inr (concat gs) \<and>
   genre_field E (row\<lparr>genre := PList xs\<rparr>)
     = csv_quote (''['' @ join '', '' (map (py_repr E) xs) @ '']'')"
proof -
  have "map (py_str E \<circ> PStr) gs = gs"
    by (induction gs) auto
  then show ?thesis
    by (simp add: concatenate_list_data_def foldl_append_concat genre_field_def csv_cell_def)
qed

lemma savePoster_requests:
  "savePoster E imdb_id v w = (res, w') \<Longrightarrow>
     \<exists>sent. requests w' = requests w @ sent \<and> length sent \<le> 1"
  by (cases v) (auto simp: Let_def split: if_splits sum.splits)

text \<open>One call sends the request for the page once, and at most one request after it.\<close>

lemma imdb_scrape_requests:
  assumes "imdb_scrape E imdb_id save_image w = (out, w')"
  shows "\<exists>sent. requests w' = requests w @ (''https://www.imdb.com/title/'' @ imdb_id) # sent \<and>
           length sent \<le> 1"
proof (cases "http_get E (''https://www.imdb.com/title/'' @ imdb_id)")
  case (Inl e)
  with assms show ?thesis
    by (auto simp: imdb_scrape_def Let_def)
next
  case (Inr body)
  show ?thesis
  proof (cases "scrape_soup E imdb_id (html_parse E body)")
    case (Inl e)
    with Inr assms show ?thesis
      by (auto simp: imdb_scrape_def Let_def)
  next
    case ok: (Inr d)
    show ?thesis
    proof (cases save_image)
      case False
      with Inr ok assms show ?thesis
        by (auto simp: imdb_scrape_def Let_def split: pyval.splits)
    next
      case True
      obtain res w2 where
        sp: "savePoster E imdb_id (poster_url d)
               (w\<lparr>requests := requests w @ [''https://www.imdb.com/title/'' @ imdb_id]\<rparr>)
             = (res, w2)"
        by (cases "savePoster E imdb_id (poster_url d)
               (w\<lparr>requests := requests w @ [''https://www.imdb.com/title/'' @ imdb_id]\<rparr>)")
      from savePoster_requests [OF sp] obtain sent where
        "requests w2 = requests w @ (''https://www.imdb.com/title/'' @ imdb_id) # sent"
        "length sent \<le> 1"
        by auto
      moreover have "w' = w2"
        using assms Inr ok True sp
        by (auto simp: imdb_scrape_def Let_def split: sum.splits pyval.splits)
      ultimately show ?thesis by blast
    qed
  qed
qed

text \<open>
  Claim C8. Let \<^verbatim>\<open>imdb_scrape\<close> raise for a key when its turn comes, after the keys \<open>pre\<close>
  and before the keys \<open>post\<close>. The call sent its page request once; the loop appends the
  key to \<^verbatim>\<open>failed_list\<close>, adds one to \<^verbatim>\<open>fails\<close>, appends no row, and goes on with \<open>post\<close>:
  the key is not tried again. At the end the batch holds one row for every call that
  returned, before and after the failure, each row carrying the key of its call, and
  \<^verbatim>\<open>failed_list\<close> has gained one entry for every call that raised.
\<close>

theorem failed_key_in_batch:
  assumes "scrape_loop E pre (b, w) = (b1, w1)"
    and "imdb_scrape E key True w1 = (Inl e, w2)"
    and "scrape_loop E (pre @ key # post) (b, w) = (b', w')"
  shows "scrape_loop E post
           (b1\<lparr>failed_list := failed_list b1 @ [key], fails := fails b1 + 1\<rparr>, w2) = (b', w') \<and>
         (\<exists>sent. requests w2 = requests w1 @ (''https://www.imdb.com/title/'' @ key) # sent \<and>
            length sent \<le> 1) \<and>
         annual_movie_list b' =
           annual_movie_list b @ scraped (attempts E pre w) @ scraped (attempts E post w2) \<and>
         failed_list b' =
           failed_list b @ failed (attempts E pre w) @ [key] @ failed (attempts E post w2) \<and>
         fails b' =
           fails b + length (failed (attempts E pre w)) + 1 + length (failed (attempts E post w2)) \<and>
         map fst (attempts E pre w) = pre \<and>
         map fst (attempts E post w2) = post \<and>
         map tconst (scraped (attempts E keys w0))
           = map fst (filter (\<lambda>a. \<not> isl (snd a)) (attempts E keys w0)) \<and>
         failed (attempts E keys w0) = map fst (filter (\<lambda>a. isl (snd a)) (attempts E keys w0))"
proof -
  let ?b2 = "b1\<lparr>failed_list := failed_list b1 @ [key], fails := fails b1 + 1\<rparr>"
  have "scrape_loop E (pre @ key # post) (b, w) = scrape_loop E (key # post) (b1, w1)"
    by (simp add: scrape_loop_append assms(1))
  also have "\<dots> = scrape_loop E post (?b2, w2)"
    by (simp add: loop_body_def assms(2))
  finally have rest: "scrape_loop E post (?b2, w2) = (b', w')"
    using assms(3) by simp
  note before = scrape_loop_attempts [OF assms(1)]
  note after = scrape_loop_attempts [OF rest]
  have rows: "map tconst (scraped (attempts E keys w0))
      = map fst (filter (\<lambda>a. \<not> isl (snd a)) (attempts E keys w0))"
  proof (rule scraped_filter, intro allI impI)
    fix key r
    assume "(key, Inr r) \<in> set (attempts E keys w0)"
    then show "tconst r = key" by (rule attempts_tconst)
  qed
  from rest imdb_scrape_requests [OF assms(2)] before after rows show ?thesis
    by (simp add: attempts_keys failed_filter [symmetric])
qed

lemma missing_page_raises:
  "http_get E (''https://www.imdb.com/title/'' @ imdb_id) = Inl e \<Longrightarrow>
     imdb_scrape E imdb_id save_image w =
       (Inl e, w\<lparr>requests := requests w @ [''https://www.imdb.com/title/'' @ imdb_id]\<rparr>)"
  by (simp add: imdb_scrape_def Let_def)

lemma sample_batch:
  "map tconst (scraped (attempts (site jurassic_page jurassic_json) [''tt0107290'']
     (snd (imdb_scrape (site jurassic_page jurassic_json) ''tt0000000'' True empty_world))))
     = [''tt0107290''] \<and>
   failed (attempts (site jurassic_page jurassic_json) [''tt0107290'']
     (snd (imdb_scrape (site jurassic_page jurassic_json) ''tt0000000'' True empty_world)))
     = []"
  by code_simp

theorem failed_key_in_batch_witness:
  "\<exists>b' w'. scrape_loop (site jurassic_page jurassic_json) [''tt0000000'', ''tt0107290'']
       (\<lparr>annual_movie_list = [], failed_list = [], fails = 0\<rparr>, empty_world) = (b', w') \<and>
     map tconst (annual_movie_list b') = [''tt0107290''] \<and>
     failed_list b' = [''tt0000000''] \<and> fails b' = 1"
proof -
  let ?E = "site jurassic_page jurassic_json"
  let ?b = "\<lparr>annual_movie_list = [], failed_list = [], fails = 0\<rparr>"
  have pre: "scrape_loop ?E [] (?b, empty_world) = (?b, empty_world)"
    by simp
  have "http_get ?E (''https://www.imdb.com/title/'' @ ''tt0000000'') = Inl RequestException"
    by (simp add: site_def)
  from missing_page_raises [OF this] obtain w2 where
    bad: "imdb_scrape ?E ''tt0000000'' True empty_world = (Inl RequestException, w2)"
    by blast
  obtain b' w' where
    all: "scrape_loop ?E ([] @ ''tt0000000'' # [''tt0107290'']) (?b, empty_world) = (b', w')"
    by (cases "scrape_loop ?E ([] @ ''tt0000000'' # [''tt0107290'']) (?b, empty_world)")
  have w2: "w2 = snd (imdb_scrape ?E ''tt0000000'' True empty_world)"
    using bad by simp
  from failed_key_in_batch [OF pre bad all] sample_batch
  have "map tconst (annual_movie_list b') = [''tt0107290''] \<and>
     failed_list b' = [''tt0000000''] \<and> fails b' = 1"
    unfolding w2 by simp
  with all show ?thesis by simp
qed

end
